theory Spec2Isabelle
  imports Complex_Main
begin

section \<open>JavaScript values used by the authentication middleware\<close>

text \<open>
  The middleware combines header and query values with \<^verbatim>\<open>&&\<close> and \<^verbatim>\<open>||\<close>, which
  select an operand by its truthiness. The values that reach these operators are
  \<^verbatim>\<open>undefined\<close> (an absent header or property), \<^verbatim>\<open>null\<close> (an absent search
  parameter), strings, and the array of values the HTTP framework's query parser builds
  for a parameter that is given more than once. The empty string is falsy; an array is
  truthy, also when it is empty.
\<close>

datatype jsval = JUndefined | JNull | JStr string | JArray "string list"

fun truthy :: "jsval \<Rightarrow> bool" where
  "truthy (JStr s) = (s \<noteq> [])"
| "truthy (JArray xs) = True"
| "truthy JUndefined = False"
| "truthy JNull = False"

definition js_or :: "jsval \<Rightarrow> jsval \<Rightarrow> jsval" where
  "js_or a b = (if truthy a then a else b)"

definition js_and :: "jsval \<Rightarrow> jsval \<Rightarrow> jsval" where
  "js_and a b = (if truthy a then b else a)"

text \<open>\<^verbatim>\<open>s.split(c)\<close> for a one-character separator: never the empty array.\<close>

fun split_js :: "char \<Rightarrow> string \<Rightarrow> string list" where
  "split_js c [] = [[]]"
| "split_js c (x # xs) =
     (if x = c then [] # split_js c xs
      else (case split_js c xs of
              [] \<Rightarrow> [[x]]
            | y # ys \<Rightarrow> (x # y) # ys))"

text \<open>\<^verbatim>\<open>arr[i]\<close>: reading past the end of an array gives \<^verbatim>\<open>undefined\<close>.\<close>

definition index_js :: "string list \<Rightarrow> nat \<Rightarrow> jsval" where
  "index_js xs i = (if i < length xs then JStr (xs ! i) else JUndefined)"

text \<open>A property of an object of strings: \<^verbatim>\<open>undefined\<close> when the key is absent.\<close>

definition prop_js :: "(string \<times> string) list \<Rightarrow> string \<Rightarrow> jsval" where
  "prop_js obj k = (case map_of obj k of None \<Rightarrow> JUndefined | Some v \<Rightarrow> JStr v)"

text \<open>A property of an object whose values are strings or arrays (the parsed query object
  of the HTTP framework): \<^verbatim>\<open>undefined\<close> when the key is absent.\<close>

definition prop_val :: "(string \<times> jsval) list \<Rightarrow> string \<Rightarrow> jsval" where
  "prop_val obj k = (case map_of obj k of None \<Rightarrow> JUndefined | Some v \<Rightarrow> v)"

text \<open>\<^verbatim>\<open>URLSearchParams.get(name)\<close>: the first value of the name, else \<^verbatim>\<open>null\<close>.\<close>

definition searchParams_get :: "(string \<times> string) list \<Rightarrow> string \<Rightarrow> jsval" where
  "searchParams_get ps k = (case map_of ps k of None \<Rightarrow> JNull | Some v \<Rightarrow> JStr v)"

section \<open>Errors and requests\<close>

text \<open>
  Every \<^verbatim>\<open>throw\<close> of the source is an \<open>Inl\<close> of this type: the three error names
  the middleware tells apart after \<^verbatim>\<open>jwt.verify\<close>, an error of the SQL engine, and
  the \<^verbatim>\<open>TypeError\<close> of \<^verbatim>\<open>new URL\<close> on an invalid request target.
\<close>

datatype js_error =
    JsonWebTokenError
  | TokenExpiredError
  | NotBeforeError
  | SqlError string
  | TypeError string

record principal =
  principal_id :: int
  principal_username :: string

text \<open>
  A request as the middleware reads it: the request target, the (lower-cased) headers,
  the parsed query object of the HTTP framework (a parameter given once is a string, a
  repeated one is an array), and the \<^verbatim>\<open>user\<close> property the middleware attaches on
  success.
\<close>

record request =
  url :: string
  headers :: "(string \<times> string) list"
  query :: "(string \<times> jsval) list"
  user :: "principal option"

text \<open>
  \<^verbatim>\<open>new URL(request.url, 'http://localhost').searchParams\<close> is the platform's URL
  parser; it is a parameter of the model. \<open>None\<close> is the \<^verbatim>\<open>TypeError\<close> it throws
  on a target it cannot parse.
\<close>

type_synonym url_parser = "string \<Rightarrow> (string \<times> string) list option"

section \<open>Token extraction\<close>

text \<open>\<^verbatim>\<open>authHeader && authHeader.split(' ')[1]\<close>\<close>

definition header_token :: "jsval \<Rightarrow> jsval" where
  "header_token authHeader =
     js_and authHeader
       (case authHeader of
          JStr s \<Rightarrow> index_js (split_js (CHR '' '') s) 1
        | v \<Rightarrow> v)"

text \<open>
  \<^verbatim>\<open>
  const extractWebSocketToken = (request) => {
      const url = new URL(request.url, 'http://localhost');
      const tokenFromQuery = url.searchParams.get('token');
      const authHeader = request.headers.authorization;
      const tokenFromHeader = authHeader && authHeader.split(' ')[1];
      return tokenFromQuery || tokenFromHeader;
  };
  \<close>
\<close>

definition extractWebSocketToken :: "url_parser \<Rightarrow> request \<Rightarrow> js_error + jsval" where
  "extractWebSocketToken parse request =
     (case parse (url request) of
        None \<Rightarrow> Inl (TypeError ''Invalid URL'')
      | Some searchParams \<Rightarrow>
          (let tokenFromQuery = searchParams_get searchParams ''token'';
               authHeader = prop_js (headers request) ''authorization'';
               tokenFromHeader = header_token authHeader
           in Inr (js_or tokenFromQuery tokenFromHeader)))"

text \<open>
  The token expression of \<^verbatim>\<open>authenticateToken\<close>:
  \<^verbatim>\<open>
  const authHeader = req.headers['authorization'];
  const token = authHeader && authHeader.split(' ')[1] ||
                req.headers['x-auth-token'] ||
                req.query.token;
  \<close>
  (\<^verbatim>\<open>&&\<close> binds tighter than \<^verbatim>\<open>||\<close>, and \<^verbatim>\<open>||\<close> associates to the left).
\<close>

definition extractHttpToken :: "request \<Rightarrow> jsval" where
  "extractHttpToken req =
     (let authHeader = prop_js (headers req) ''authorization''
      in js_or (js_or (header_token authHeader) (prop_js (headers req) ''x-auth-token''))
               (prop_val (query req) ''token''))"

text \<open>
  The precedence the specification speaks of, in its own words: candidates are consulted
  in a fixed order and the first usable (truthy) one is the credential; when none is
  usable the last candidate is what remains.
\<close>

fun first_usable :: "jsval list \<Rightarrow> jsval" where
  "first_usable [] = JUndefined"
| "first_usable [x] = x"
| "first_usable (x # y # ys) = (if truthy x then x else first_usable (y # ys))"

section \<open>The user database\<close>

text \<open>
  The columns of the \<^verbatim>\<open>users\<close> table are the ones the queries of
  \<^verbatim>\<open>server/database/db.js\<close> name. The table is absent (\<open>None\<close>) until the
  schema has been initialised, and the engine may fail on every statement (a file that
  is not a database, for example).
\<close>

record user_row =
  row_id :: int
  row_username :: string
  row_password_hash :: string
  row_created_at :: string
  row_last_login :: "string option"
  row_is_active :: int

record database =
  users :: "user_row list option"
  engine_fault :: "string option"

text \<open>\<^verbatim>\<open>db.prepare\<close> of a statement over \<^verbatim>\<open>users\<close>: it throws when the engine
  fails or the table does not exist, and gives access to the rows otherwise.\<close>

definition prepare_users :: "database \<Rightarrow> js_error + user_row list" where
  "prepare_users db =
     (case engine_fault db of
        Some msg \<Rightarrow> Inl (SqlError msg)
      | None \<Rightarrow>
          (case users db of
             None \<Rightarrow> Inl (SqlError ''no such table: users'')
           | Some rows \<Rightarrow> Inr rows))"

text \<open>The result set of \<^verbatim>\<open>SELECT COUNT(*) as count FROM users\<close>: one row, one column.\<close>

definition select_count :: "user_row list \<Rightarrow> int list list" where
  "select_count rows = [[int (length rows)]]"

text \<open>
  \<^verbatim>\<open>
  hasUsers: () => {
    try {
      const stmt = db.prepare('SELECT COUNT(*) as count FROM users');
      if (stmt.step()) {
        const result = stmt.get();
        const count = result[0];
        stmt.reset();
        return count > 0;
      }
      stmt.reset();
      return false;
    } catch (err) {
      return false; // If table doesn't exist yet, no users
    }
  }
  \<close>
  The body of the \<^verbatim>\<open>try\<close> first, then the function with its \<^verbatim>\<open>catch\<close>.
\<close>

definition hasUsers_try :: "database \<Rightarrow> js_error + bool" where
  "hasUsers_try db =
     (case prepare_users db of
        Inl err \<Rightarrow> Inl err
      | Inr rows \<Rightarrow>
          (case select_count rows of
             result # _ \<Rightarrow>
               (case result of
                  count # _ \<Rightarrow> Inr (count > 0)
                | [] \<Rightarrow> Inr False)
           | [] \<Rightarrow> Inr False))"

definition hasUsers :: "database \<Rightarrow> js_error + bool" where
  "hasUsers db =
     (case hasUsers_try db of
        Inl err \<Rightarrow> Inr False
      | Inr b \<Rightarrow> Inr b)"

text \<open>
  \<^verbatim>\<open>stmt.getAsObject([key])\<close> binds the key, steps once and returns the columns of
  the row it stands on; with no row every column is \<^verbatim>\<open>undefined\<close>, which is
  \<open>None\<close> here.
\<close>

definition getAsObject :: "user_row list \<Rightarrow> user_row option" where
  "getAsObject selected = (case selected of [] \<Rightarrow> None | r # _ \<Rightarrow> Some r)"

text \<open>
  \<^verbatim>\<open>
  getUserByUsername: (username) => {
    try {
      const stmt = db.prepare('SELECT * FROM users WHERE username = ? AND is_active = 1');
      const result = stmt.getAsObject([username]);
      return result.id ? result : null;
    } catch (err) { throw err; }
  }
  \<close>
  \<^verbatim>\<open>result.id\<close> is falsy when there is no row, and also for a row whose id is 0.
\<close>

definition getUserByUsername :: "database \<Rightarrow> string \<Rightarrow> js_error + user_row option" where
  "getUserByUsername db username =
     (case prepare_users db of
        Inl err \<Rightarrow> Inl err
      | Inr rows \<Rightarrow>
          (let result = getAsObject
                 (filter (\<lambda>r. row_username r = username \<and> row_is_active r = 1) rows)
           in Inr (case result of
                     None \<Rightarrow> None
                   | Some r \<Rightarrow> if row_id r \<noteq> 0 then Some r else None)))"

text \<open>The columns \<^verbatim>\<open>getUserById\<close> selects: id, username, created_at, last_login.\<close>

record user_info =
  user_id :: int
  user_username :: string
  user_created_at :: string
  user_last_login :: "string option"

definition select_info :: "user_row \<Rightarrow> user_info" where
  "select_info r =
     \<lparr>user_id = row_id r, user_username = row_username r,
      user_created_at = row_created_at r, user_last_login = row_last_login r\<rparr>"

text \<open>
  \<^verbatim>\<open>
  getUserById: (userId) => {
    try {
      const stmt = db.prepare('SELECT id, username, created_at, last_login FROM users
                               WHERE id = ? AND is_active = 1');
      const result = stmt.getAsObject([userId]);
      return result.id ? result : null;
    } catch (err) { throw err; }
  }
  \<close>
\<close>

definition getUserById :: "database \<Rightarrow> int \<Rightarrow> js_error + user_info option" where
  "getUserById db userId =
     (case prepare_users db of
        Inl err \<Rightarrow> Inl err
      | Inr rows \<Rightarrow>
          (let result = getAsObject
                 (filter (\<lambda>r. row_id r = userId \<and> row_is_active r = 1) rows)
           in Inr (case result of
                     None \<Rightarrow> None
                   | Some r \<Rightarrow> if row_id r \<noteq> 0 then Some (select_info r) else None)))"

section \<open>Authentication\<close>

text \<open>
  \<^verbatim>\<open>jwt.verify(token, JWT_SECRET)\<close> is the token library's; it is a parameter of the
  model. It returns the decoded payload or throws one of its errors.
\<close>

record jwt_payload =
  userId :: int
  username :: string

type_synonym jwt_verifier = "string \<Rightarrow> js_error + jwt_payload"

text \<open>
  \<^verbatim>\<open>jwt.verify\<close> on the value the middleware hands it: a token that is not a string
  is refused with \<^verbatim>\<open>JsonWebTokenError\<close> (\<^verbatim>\<open>jwt must be a string\<close>) before
  anything is decoded.
\<close>

definition jwt_verify :: "jwt_verifier \<Rightarrow> jsval \<Rightarrow> js_error + jwt_payload" where
  "jwt_verify verify token =
     (case token of
        JStr t \<Rightarrow> verify t
      | _ \<Rightarrow> Inl JsonWebTokenError)"

text \<open>
  \<^verbatim>\<open>
  const authenticateWebSocket = (token) => {
      try {
          if (!token) { return null; }
          const decoded = jwt.verify(token, JWT_SECRET);
          const user = userDb.getUserById(decoded.userId);
          if (!user) { return null; }
          return { id: user.id, username: user.username };
      } catch (error) {
          console.error('WebSocket authentication error:', error.message);
          return null;
      }
  };
  \<close>
\<close>

definition authenticateWebSocket_try ::
  "jwt_verifier \<Rightarrow> database \<Rightarrow> jsval \<Rightarrow> js_error + principal option" where
  "authenticateWebSocket_try verify db token =
     (if \<not> truthy token then Inr None
      else case jwt_verify verify token of
             Inl err \<Rightarrow> Inl err
           | Inr decoded \<Rightarrow>
               (case getUserById db (userId decoded) of
                  Inl err \<Rightarrow> Inl err
                | Inr None \<Rightarrow> Inr None
                | Inr (Some u) \<Rightarrow>
                    Inr (Some \<lparr>principal_id = user_id u,
                               principal_username = user_username u\<rparr>)))"

definition authenticateWebSocket ::
  "jwt_verifier \<Rightarrow> database \<Rightarrow> jsval \<Rightarrow> js_error + principal option" where
  "authenticateWebSocket verify db token =
     (case authenticateWebSocket_try verify db token of
        Inl err \<Rightarrow> Inr None
      | Inr r \<Rightarrow> Inr r)"

text \<open>
  What \<^verbatim>\<open>authenticateToken\<close> does with a request: it answers with a status and an
  error message, or attaches the user and calls \<^verbatim>\<open>next()\<close>.
\<close>

datatype http_outcome = Json nat string | Next user_info

text \<open>
  \<^verbatim>\<open>
  const authenticateToken = async (req, res, next) => {
      try {
          ... token as above ...
          if (!token) { return res.status(401).json({ error: 'Access token required' }); }
          const decoded = jwt.verify(token, JWT_SECRET);
          const user = userDb.getUserById(decoded.userId);
          if (!user) {
              return res.status(401).json({ error: 'Invalid token: user not found' });
          }
          req.user = user;
          next();
      } catch (error) {
          if (error.name === 'JsonWebTokenError') {
              return res.status(401).json({ error: 'Invalid token format' });
          } else if (error.name === 'TokenExpiredError') {
              return res.status(401).json({ error: 'Token expired' });
          } else if (error.name === 'NotBeforeError') {
              return res.status(401).json({ error: 'Token not active yet' });
          }
          return res.status(500).json({ error: 'Authentication error' });
      }
  };
  \<close>
\<close>

definition authenticateToken_try ::
  "jwt_verifier \<Rightarrow> database \<Rightarrow> request \<Rightarrow> js_error + http_outcome" where
  "authenticateToken_try verify db req =
     (let token = extractHttpToken req
      in if \<not> truthy token then Inr (Json 401 ''Access token required'')
         else case jwt_verify verify token of
                Inl err \<Rightarrow> Inl err
              | Inr decoded \<Rightarrow>
                  (case getUserById db (userId decoded) of
                     Inl err \<Rightarrow> Inl err
                   | Inr None \<Rightarrow> Inr (Json 401 ''Invalid token: user not found'')
                   | Inr (Some u) \<Rightarrow> Inr (Next u)))"

definition authenticateToken :: "jwt_verifier \<Rightarrow> database \<Rightarrow> request \<Rightarrow> http_outcome" where
  "authenticateToken verify db req =
     (case authenticateToken_try verify db req of
        Inr outcome \<Rightarrow> outcome
      | Inl err \<Rightarrow>
          (if err = JsonWebTokenError then Json 401 ''Invalid token format''
           else if err = TokenExpiredError then Json 401 ''Token expired''
           else if err = NotBeforeError then Json 401 ''Token not active yet''
           else Json 500 ''Authentication error''))"

section \<open>The Connection Gateway's upgrade check\<close>

text \<open>
  \<^verbatim>\<open>
  verifyClient: (info) => {
      const token = extractWebSocketToken(info.req);
      const user = authenticateWebSocket(token);
      if (!user) { return false; }
      info.req.user = user;
      return true;
  }
  \<close>
  The result is the boolean returned together with the request as the callback leaves it.
\<close>

definition verifyClient ::
  "url_parser \<Rightarrow> jwt_verifier \<Rightarrow> database \<Rightarrow> request \<Rightarrow> js_error + bool \<times> request" where
  "verifyClient parse verify db req =
     (case extractWebSocketToken parse req of
        Inl err \<Rightarrow> Inl err
      | Inr token \<Rightarrow>
          (case authenticateWebSocket verify db token of
             Inl err \<Rightarrow> Inl err
           | Inr None \<Rightarrow> Inr (False, req)
           | Inr (Some u) \<Rightarrow> Inr (True, req\<lparr>user := Some u\<rparr>)))"

text \<open>Modelled from the spec: the gateway's connection registry is missing from the
  source; a connection carries the principal attached at the handshake (section 3).\<close>

record connection =
  conn_principal :: principal
  conn_url :: string

text \<open>Modelled from the spec: the gateway's upgrade step is missing from the source; what
  can happen to the channel of an upgrade request: the upgrade is rejected with a status,
  a channel is opened, an open channel is closed again, or the upgrade fails with an
  error thrown by the callback.\<close>

datatype gateway_event =
    UpgradeRejected nat
  | ChannelOpened connection
  | ChannelClosed connection
  | UpgradeFailed js_error

text \<open>Modelled from the spec: the gateway's connection registry is missing from the
  source; the set of currently connected clients (section 3).\<close>

record gateway =
  clients :: "connection list"

text \<open>
  Modelled from the spec: the upgrade step around \<^verbatim>\<open>verifyClient\<close> is missing from
  the source. The server object that runs the callback during the protocol upgrade
  belongs to the WebSocket library; section 4.1 of the specification gives its contract:
  the verifier is called before the upgrade completes, a failure rejects the upgrade with
  no channel opened, and a success constructs a connection with the principal set and
  adds it to the connected clients. The source's own comments on the two results of the
  callback say the same (\<^verbatim>\<open>return false; // Reject connection\<close> and
  \<^verbatim>\<open>return true; // Accept connection\<close>).
\<close>

definition Upgrade ::
  "url_parser \<Rightarrow> jwt_verifier \<Rightarrow> database \<Rightarrow> gateway \<Rightarrow> request
     \<Rightarrow> gateway \<times> gateway_event list" where
  "Upgrade parse verify db gw req =
     (case verifyClient parse verify db req of
        Inl err \<Rightarrow> (gw, [UpgradeFailed err])
      | Inr (accepted, req') \<Rightarrow>
          (if \<not> accepted then (gw, [UpgradeRejected 401])
           else case user req' of
                  None \<Rightarrow> (gw, [UpgradeRejected 401])
                | Some p \<Rightarrow>
                    (let c = \<lparr>conn_principal = p, conn_url = url req'\<rparr>
                     in (gw\<lparr>clients := c # clients gw\<rparr>, [ChannelOpened c]))))"

text \<open>Modelled from the spec: the gateway's upgrade step is missing from the source; an
  event that opens a channel.\<close>

definition opened :: "gateway_event \<Rightarrow> bool" where
  "opened ev = (case ev of ChannelOpened c \<Rightarrow> True | _ \<Rightarrow> False)"

section \<open>Session lifecycle\<close>

text \<open>
  The Session Registry and Process Lifecycle Manager, the streaming bridge and the client's
  reconnection protocol are described by the specification (sections 3, 4.2, 4.3 and 4.4);
  no file of the source holds them. Each definition below follows the specification's
  words and says so.
\<close>

text \<open>Modelled from the spec: the lifecycle manager is missing from the source; the
  states of a session are the four of section 3.\<close>

datatype session_state = Spawning | Running | Draining | Terminated

text \<open>Modelled from the spec: the lifecycle manager is missing from the source; a session
  is a conversation or a shell (section 3).\<close>

datatype session_kind = Conversation | Shell

text \<open>Modelled from the spec: the lifecycle manager is missing from the source; these are
  the labels on the edges of the state machine of section 4.2, spawn failure carrying the
  captured diagnostics.\<close>

datatype lifecycle_op =
    SpawnSuccess
  | SpawnFailure string
  | ExplicitTerminate
  | IdleTimeout
  | ProcessExit
  | ExitObserved
  | GracePeriodElapsed

text \<open>Modelled from the spec: the lifecycle manager is missing from the source; the state
  machine of section 4.2:
  \<^verbatim>\<open>spawning -[spawn success]-> running -[explicit terminate | idle timeout |
  process exit]-> draining -[exit observed | grace period elapsed]-> terminated\<close>, and
  \<^verbatim>\<open>spawning -> terminated\<close> when the spawn itself fails. An operation with no edge
  from the current state leaves the state as it is.\<close>

fun transition :: "session_state \<Rightarrow> lifecycle_op \<Rightarrow> session_state" where
  "transition Spawning SpawnSuccess = Running"
| "transition Spawning (SpawnFailure reason) = Terminated"
| "transition Running ExplicitTerminate = Draining"
| "transition Running IdleTimeout = Draining"
| "transition Running ProcessExit = Draining"
| "transition Draining ExitObserved = Terminated"
| "transition Draining GracePeriodElapsed = Terminated"
| "transition s other = s"

text \<open>Modelled from the spec: the lifecycle manager is missing from the source; the order
  of the states along \<^verbatim>\<open>spawning -> running -> draining -> terminated\<close>.\<close>

fun rank :: "session_state \<Rightarrow> nat" where
  "rank Spawning = 0"
| "rank Running = 1"
| "rank Draining = 2"
| "rank Terminated = 3"

text \<open>Modelled from the spec: the lifecycle manager is missing from the source; the states
  a session passes through under a sequence of operations, the starting state first.\<close>

fun trace :: "session_state \<Rightarrow> lifecycle_op list \<Rightarrow> session_state list" where
  "trace s [] = [s]"
| "trace s (op # ops) = s # trace (transition s op) ops"

text \<open>Modelled from the spec: the lifecycle manager is missing from the source; one
  observed step is in order when the state stays, or moves to the next state of the
  chain.\<close>

definition in_order :: "session_state \<Rightarrow> session_state \<Rightarrow> bool" where
  "in_order a b = (b = a \<or> rank b = Suc (rank a))"

text \<open>Modelled from the spec: the lifecycle manager is missing from the source; every
  pair of successive states of a history is in order.\<close>

fun ordered_history :: "session_state list \<Rightarrow> bool" where
  "ordered_history [] = True"
| "ordered_history [a] = True"
| "ordered_history (a # b # rest) = (in_order a b \<and> ordered_history (b # rest))"

text \<open>Modelled from the spec: the lifecycle manager is missing from the source; the
  lifecycle operations other than the failure of the spawn.\<close>

fun regular_op :: "lifecycle_op \<Rightarrow> bool" where
  "regular_op (SpawnFailure reason) = False"
| "regular_op other = True"

text \<open>Modelled from the spec: the lifecycle manager is missing from the source; the fields
  of a session are those of section 3, with the connections attached to it (by
  identifier) and the exit diagnostics section 4.2 says are recorded.\<close>

record session =
  session_id :: string
  kind :: session_kind
  projectPath :: string
  processHandle :: "nat option"
  createdAt :: nat
  lastActivityAt :: nat
  state :: session_state
  outputBuffer :: "string list"
  attached :: "nat list"
  exitInfo :: "string option"

text \<open>Modelled from the spec: the lifecycle manager is missing from the source; an
  operation moves the state along the state machine, and a spawn failure that takes
  effect leaves its diagnostics on the session.\<close>

definition apply_op :: "session \<Rightarrow> lifecycle_op \<Rightarrow> session" where
  "apply_op s op =
     s\<lparr>state := transition (state s) op,
       exitInfo := (case op of
                      SpawnFailure reason \<Rightarrow>
                        if state s = Spawning then Some reason else exitInfo s
                    | _ \<Rightarrow> exitInfo s)\<rparr>"

text \<open>Modelled from the spec: the lifecycle manager is missing from the source; spawning
  the underlying process either gives a process handle or fails with diagnostics (binary
  missing, immediate non-zero exit).\<close>

type_synonym spawner = "session_kind \<Rightarrow> string \<Rightarrow> string option \<Rightarrow> string + nat"

text \<open>Modelled from the spec: the lifecycle manager is missing from the source; a session
  starts in the spawning state.\<close>

definition new_session :: "string \<Rightarrow> session_kind \<Rightarrow> string \<Rightarrow> nat \<Rightarrow> session" where
  "new_session sid k path now =
     \<lparr>session_id = sid, kind = k, projectPath = path, processHandle = None,
      createdAt = now, lastActivityAt = now, state = Spawning, outputBuffer = [],
      attached = [], exitInfo = None\<rparr>"

text \<open>Modelled from the spec: the lifecycle manager is missing from the source;
  \<^verbatim>\<open>Create(kind, projectPath, resumeId?) -> Session\<close> of section 4.2. A spawn failure
  is not thrown: it surfaces as a terminal session state with the captured diagnostics.\<close>

definition Create ::
  "spawner \<Rightarrow> string \<Rightarrow> session_kind \<Rightarrow> string \<Rightarrow> string option \<Rightarrow> nat \<Rightarrow> session" where
  "Create spawn sid k path resumeId now =
     (let s = new_session sid k path now
      in case spawn k path resumeId of
           Inl diagnostics \<Rightarrow> apply_op s (SpawnFailure diagnostics)
         | Inr handle \<Rightarrow> (apply_op s SpawnSuccess)\<lparr>processHandle := Some handle\<rparr>)"

section \<open>Registry and streaming bridge\<close>

text \<open>Modelled from the spec: the registry is missing from the source; it maps a session
  identifier to its session and holds the connected connections (section 3).\<close>

record registry =
  sessions :: "string \<rightharpoonup> session"
  connected :: "nat list"

text \<open>Modelled from the spec: the registry and the bridge are missing from the source;
  what can happen to the registry: a lifecycle operation on a session, a tick of the
  reaper at a time, an attach of a connection at a time, input at a time, the end of a
  pump of a (session, connection) pair, and the close of a connection.\<close>

datatype registry_event =
    Op string lifecycle_op
  | ReaperTick nat
  | Attach string nat nat
  | Input string nat
  | PumpEnded string nat
  | ConnectionClosed nat

text \<open>Modelled from the spec: the registry is missing from the source; a session that
  reaches the terminated state has its registry entry released (section 4.2).\<close>

definition settle :: "session \<Rightarrow> session option" where
  "settle s = (if state s = Terminated then None else Some s)"

text \<open>Modelled from the spec: the reaper is missing from the source; a session with no
  attached connection whose last activity is older than the idle threshold is terminated
  through the path of an explicit terminate (section 4.2).\<close>

definition reap :: "nat \<Rightarrow> nat \<Rightarrow> session \<Rightarrow> session" where
  "reap threshold now s =
     (if attached s = [] \<and> lastActivityAt s + threshold < now
      then apply_op s IdleTimeout else s)"

text \<open>Modelled from the spec: the bridge is missing from the source; the cleanup of a
  pump that ended, or of a connection that closed, drops the connection from the fan-out
  of the session (section 4.3).\<close>

definition detach :: "nat \<Rightarrow> session \<Rightarrow> session" where
  "detach cid s = s\<lparr>attached := removeAll cid (attached s)\<rparr>"

text \<open>Modelled from the spec: the registry and the bridge are missing from the source; one
  event on the registry, the idle threshold of the reaper being the first argument.
  Attaching makes the connection the only one that receives live output; input is
  forwarded only to a running session.\<close>

fun registry_step :: "nat \<Rightarrow> registry \<Rightarrow> registry_event \<Rightarrow> registry" where
  "registry_step threshold reg (Op sid op) =
     (case sessions reg sid of
        None \<Rightarrow> reg
      | Some s \<Rightarrow> reg\<lparr>sessions := (sessions reg)(sid := settle (apply_op s op))\<rparr>)"
| "registry_step threshold reg (ReaperTick now) =
     reg\<lparr>sessions := (\<lambda>sid. map_option (reap threshold now) (sessions reg sid))\<rparr>"
| "registry_step threshold reg (Attach sid cid now) =
     (case sessions reg sid of
        None \<Rightarrow> reg
      | Some s \<Rightarrow>
          reg\<lparr>sessions := (sessions reg)(sid \<mapsto> s\<lparr>attached := [cid], lastActivityAt := now\<rparr>)\<rparr>)"
| "registry_step threshold reg (Input sid now) =
     (case sessions reg sid of
        None \<Rightarrow> reg
      | Some s \<Rightarrow>
          (if state s = Running
           then reg\<lparr>sessions := (sessions reg)(sid \<mapsto> s\<lparr>lastActivityAt := now\<rparr>)\<rparr>
           else reg))"
| "registry_step threshold reg (PumpEnded sid cid) =
     (case sessions reg sid of
        None \<Rightarrow> reg
      | Some s \<Rightarrow> reg\<lparr>sessions := (sessions reg)(sid \<mapsto> detach cid s)\<rparr>)"
| "registry_step threshold reg (ConnectionClosed cid) =
     reg\<lparr>sessions := (\<lambda>sid. map_option (detach cid) (sessions reg sid)),
         connected := removeAll cid (connected reg)\<rparr>"

text \<open>Modelled from the spec: the registry is missing from the source; a run of events.\<close>

fun registry_run :: "nat \<Rightarrow> registry \<Rightarrow> registry_event list \<Rightarrow> registry" where
  "registry_run threshold reg [] = reg"
| "registry_run threshold reg (ev # evs) =
     registry_run threshold (registry_step threshold reg ev) evs"

text \<open>Modelled from the spec: the registry is missing from the source; the state of a
  session of the registry, if the registry holds it.\<close>

definition state_of :: "registry \<Rightarrow> string \<Rightarrow> session_state option" where
  "state_of reg sid = map_option state (sessions reg sid)"

text \<open>Modelled from the spec: the bridge is missing from the source; the transport events
  are the end of a pump and the close of a connection (section 4.3).\<close>

fun transport_event :: "registry_event \<Rightarrow> bool" where
  "transport_event (PumpEnded sid cid) = True"
| "transport_event (ConnectionClosed cid) = True"
| "transport_event other = False"

section \<open>Client reconnection\<close>

text \<open>Modelled from the spec: the client's connection hook is missing from the source; the
  states of the client are the four of section 4.4.\<close>

datatype connection_state = Disconnected | Connecting | Connected | ConnectionError

text \<open>Modelled from the spec: the client's connection hook is missing from the source; the
  configured base delay and maximum attempt count (section 4.4). Delays are exact
  rationals, as the formula of the specification is.\<close>

record reconnect_config =
  baseDelay :: rat
  maxAttempts :: nat

text \<open>Modelled from the spec: the client's connection hook is missing from the source; the
  client's state and the number of reconnect attempts it has scheduled so far.\<close>

record client =
  connectionState :: connection_state
  reconnectAttempts :: nat

text \<open>Modelled from the spec: the client's connection hook is missing from the source; the
  close code of a normal closure.\<close>

definition normalClosure :: nat where
  "normalClosure = 1000"

text \<open>Modelled from the spec: the client's connection hook is missing from the source; the
  delay before an attempt is \<^verbatim>\<open>base delay x 1.5^attempt\<close> (section 4.4).\<close>

definition reconnectDelay :: "reconnect_config \<Rightarrow> nat \<Rightarrow> rat" where
  "reconnectDelay cfg n = baseDelay cfg * (3 / 2) ^ n"

text \<open>Modelled from the spec: the client's connection hook is missing from the source; on
  an unexpected close with attempts left in the budget a reconnect is scheduled after
  the delay of the current attempt, and the attempt is counted; otherwise nothing is
  scheduled (section 4.4).\<close>

definition onClose :: "reconnect_config \<Rightarrow> client \<Rightarrow> nat \<Rightarrow> client \<times> rat option" where
  "onClose cfg c code =
     (if code \<noteq> normalClosure \<and> reconnectAttempts c < maxAttempts cfg
      then (c\<lparr>connectionState := Disconnected,
              reconnectAttempts := Suc (reconnectAttempts c)\<rparr>,
            Some (reconnectDelay cfg (reconnectAttempts c)))
      else (c\<lparr>connectionState := Disconnected\<rparr>, None))"

text \<open>Modelled from the spec: the client's connection hook is missing from the source; a
  run of the protocol: each reconnect attempt ends in a close with the next code of the
  list, and the run is over once a close schedules no reconnect. The result is the delays
  scheduled, in order.\<close>

fun reconnectRun :: "reconnect_config \<Rightarrow> client \<Rightarrow> nat list \<Rightarrow> rat list" where
  "reconnectRun cfg c [] = []"
| "reconnectRun cfg c (code # codes) =
     (case onClose cfg c code of
        (c', None) \<Rightarrow> []
      | (c', Some d) \<Rightarrow> d # reconnectRun cfg c' codes)"

section \<open>Properties of token extraction\<close>

lemma jwt_verify_simps [simp]:
  "jwt_verify verify (JStr t) = verify t"
  "jwt_verify verify (JArray xs) = Inl JsonWebTokenError"
  "jwt_verify verify JUndefined = Inl JsonWebTokenError"
  "jwt_verify verify JNull = Inl JsonWebTokenError"
  by (simp_all add: jwt_verify_def)

text \<open>
  Claim C1, as amended. For every upgrade request whose target parses, the gateway takes
  the \<^verbatim>\<open>token\<close> query parameter when it is present and not empty, also when an
  authorization header carries a token as well; the header's token (the second
  space-separated field of the header) is used only when the query parameter is absent
  or empty. The token so chosen is the one handed to the identity verifier.
\<close>

theorem extractWebSocketToken_query_first:
  assumes "parse (url req) = Some ps"
  shows "extractWebSocketToken parse req =
           Inr (if truthy (searchParams_get ps ''token'')
                then searchParams_get ps ''token''
                else header_token (prop_js (headers req) ''authorization''))
       \<and> verifyClient parse verify db req =
           (case authenticateWebSocket verify db
                   (if truthy (searchParams_get ps ''token'')
                    then searchParams_get ps ''token''
                    else header_token (prop_js (headers req) ''authorization'')) of
              Inl err \<Rightarrow> Inl err
            | Inr None \<Rightarrow> Inr (False, req)
            | Inr (Some u) \<Rightarrow> Inr (True, req\<lparr>user := Some u\<rparr>))"
  using assms by (simp add: extractWebSocketToken_def verifyClient_def js_or_def Let_def)

theorem extractWebSocketToken_query_first_witness:
  "extractWebSocketToken (\<lambda>u. Some [(''token'', ''q'')])
      \<lparr>url = ''/ws?token=q'', headers = [(''authorization'', ''Bearer h'')],
       query = [], user = None\<rparr> = Inr (JStr ''q'')
   \<and> extractWebSocketToken (\<lambda>u. Some [])
      \<lparr>url = ''/ws'', headers = [(''authorization'', ''Bearer h'')],
       query = [], user = None\<rparr> = Inr (JStr ''h'')"
proof -
  have a: "(\<lambda>u::string. Some [(''token'', ''q'')])
             (url \<lparr>url = ''/ws?token=q'', headers = [(''authorization'', ''Bearer h'')],
                   query = [], user = None\<rparr>) = Some [(''token'', ''q'')]"
    by simp
  have b: "(\<lambda>u::string. Some ([]::(string \<times> string) list))
             (url \<lparr>url = ''/ws'', headers = [(''authorization'', ''Bearer h'')],
                   query = [], user = None\<rparr>) = Some []"
    by simp
  show ?thesis
    using extractWebSocketToken_query_first [OF a, THEN conjunct1]
          extractWebSocketToken_query_first [OF b, THEN conjunct1]
    by (simp add: searchParams_get_def prop_js_def header_token_def js_and_def index_js_def)
qed

text \<open>
  Claim C1 as the specification states it (the header's token wins when both are
  present) fails: a request with \<^verbatim>\<open>?token=q\<close> and the header
  \<^verbatim>\<open>Authorization: Bearer h\<close> yields \<^verbatim>\<open>q\<close>.
\<close>

theorem header_precedence_counterexample:
  "\<not> (\<forall>parse req ps.
        parse (url req) = Some ps
        \<and> truthy (searchParams_get ps ''token'')
        \<and> truthy (header_token (prop_js (headers req) ''authorization''))
        \<longrightarrow> extractWebSocketToken parse req =
              Inr (header_token (prop_js (headers req) ''authorization'')))"
proof
  assume claim: "\<forall>parse req ps.
        parse (url req) = Some ps
        \<and> truthy (searchParams_get ps ''token'')
        \<and> truthy (header_token (prop_js (headers req) ''authorization''))
        \<longrightarrow> extractWebSocketToken parse req =
              Inr (header_token (prop_js (headers req) ''authorization''))"
  let ?req = "\<lparr>url = ''/ws?token=q'', headers = [(''authorization'', ''Bearer h'')],
       query = [], user = None\<rparr>"
  let ?parse = "\<lambda>u::string. Some [(''token'', ''q'')]"
  have "extractWebSocketToken ?parse ?req =
          Inr (header_token (prop_js (headers ?req) ''authorization''))"
    using claim [rule_format, of ?parse ?req "[(''token'', ''q'')]"]
    by (simp add: searchParams_get_def prop_js_def header_token_def js_and_def index_js_def)
  then show False
    by (simp add: extractWebSocketToken_def searchParams_get_def prop_js_def
        header_token_def js_and_def js_or_def index_js_def)
qed

lemma getUserById_error:
  "getUserById db uid = Inl err \<Longrightarrow> \<exists>msg. err = SqlError msg"
  by (auto simp: getUserById_def prepare_users_def Let_def split: option.splits sum.splits)

text \<open>
  Claim C10. For every HTTP request to a protected route, \<^verbatim>\<open>authenticateToken\<close>
  takes the credential from the first usable source in the order: the second field of the
  authorization header, the \<^verbatim>\<open>x-auth-token\<close> header, the \<^verbatim>\<open>token\<close> query
  parameter. It answers 401 when none is usable, and otherwise it is that credential, and
  no other candidate, that is handed to \<^verbatim>\<open>jwt.verify\<close> and decides the outcome
  (a credential that is not a string is refused as an invalid token).
  The upgrade path uses the opposite order: the query parameter first, then the
  authorization header.
\<close>

theorem authenticateToken_precedence:
  "authenticateToken verify db req =
     (let token = first_usable [header_token (prop_js (headers req) ''authorization''),
                                prop_js (headers req) ''x-auth-token'',
                                prop_val (query req) ''token'']
      in if \<not> truthy token then Json 401 ''Access token required''
         else case token of
                JStr t \<Rightarrow>
                  (case verify t of
                     Inl err \<Rightarrow>
                       (if err = JsonWebTokenError then Json 401 ''Invalid token format''
                        else if err = TokenExpiredError then Json 401 ''Token expired''
                        else if err = NotBeforeError then Json 401 ''Token not active yet''
                        else Json 500 ''Authentication error'')
                   | Inr decoded \<Rightarrow>
                       (case getUserById db (userId decoded) of
                          Inl err \<Rightarrow> Json 500 ''Authentication error''
                        | Inr None \<Rightarrow> Json 401 ''Invalid token: user not found''
                        | Inr (Some u) \<Rightarrow> Next u))
              | other \<Rightarrow> Json 401 ''Invalid token format'')
   \<and> extractHttpToken req =
       first_usable [header_token (prop_js (headers req) ''authorization''),
                     prop_js (headers req) ''x-auth-token'',
                     prop_val (query req) ''token'']
   \<and> extractWebSocketToken parse req =
       (case parse (url req) of
          None \<Rightarrow> Inl (TypeError ''Invalid URL'')
        | Some ps \<Rightarrow>
            Inr (first_usable [searchParams_get ps ''token'',
                               header_token (prop_js (headers req) ''authorization'')]))"
proof (intro conjI)
  show order: "extractHttpToken req =
       first_usable [header_token (prop_js (headers req) ''authorization''),
                     prop_js (headers req) ''x-auth-token'',
                     prop_val (query req) ''token'']"
    by (simp add: extractHttpToken_def js_or_def Let_def)
  have "authenticateToken verify db req =
     (let token = extractHttpToken req
      in if \<not> truthy token then Json 401 ''Access token required''
         else case token of
                JStr t \<Rightarrow>
                  (case verify t of
                     Inl err \<Rightarrow>
                       (if err = JsonWebTokenError then Json 401 ''Invalid token format''
                        else if err = TokenExpiredError then Json 401 ''Token expired''
                        else if err = NotBeforeError then Json 401 ''Token not active yet''
                        else Json 500 ''Authentication error'')
                   | Inr decoded \<Rightarrow>
                       (case getUserById db (userId decoded) of
                          Inl err \<Rightarrow> Json 500 ''Authentication error''
                        | Inr None \<Rightarrow> Json 401 ''Invalid token: user not found''
                        | Inr (Some u) \<Rightarrow> Next u))
              | other \<Rightarrow> Json 401 ''Invalid token format'')"
    by (auto simp: authenticateToken_def authenticateToken_try_def Let_def
             split: sum.splits option.splits jsval.splits dest: getUserById_error)
  then show "authenticateToken verify db req =
     (let token = first_usable [header_token (prop_js (headers req) ''authorization''),
                                prop_js (headers req) ''x-auth-token'',
                                prop_val (query req) ''token'']
      in if \<not> truthy token then Json 401 ''Access token required''
         else case token of
                JStr t \<Rightarrow>
                  (case verify t of
                     Inl err \<Rightarrow>
                       (if err = JsonWebTokenError then Json 401 ''Invalid token format''
                        else if err = TokenExpiredError then Json 401 ''Token expired''
                        else if err = NotBeforeError then Json 401 ''Token not active yet''
                        else Json 500 ''Authentication error'')
                   | Inr decoded \<Rightarrow>
                       (case getUserById db (userId decoded) of
                          Inl err \<Rightarrow> Json 500 ''Authentication error''
                        | Inr None \<Rightarrow> Json 401 ''Invalid token: user not found''
                        | Inr (Some u) \<Rightarrow> Next u))
              | other \<Rightarrow> Json 401 ''Invalid token format'')"
    by (simp only: order)
  show "extractWebSocketToken parse req =
       (case parse (url req) of
          None \<Rightarrow> Inl (TypeError ''Invalid URL'')
        | Some ps \<Rightarrow>
            Inr (first_usable [searchParams_get ps ''token'',
                               header_token (prop_js (headers req) ''authorization'')]))"
    by (simp add: extractWebSocketToken_def js_or_def Let_def split: option.splits)
qed

theorem authenticateToken_precedence_witness:
  "authenticateToken
      (\<lambda>t. if t = ''h'' then Inr \<lparr>userId = 1, username = ''alice''\<rparr>
            else if t = ''x'' then Inl TokenExpiredError else Inl JsonWebTokenError)
      \<lparr>users = Some [\<lparr>row_id = 1, row_username = ''alice'', row_password_hash = ''x'',
                       row_created_at = ''2024-01-01'', row_last_login = None,
                       row_is_active = 1\<rparr>],
       engine_fault = None\<rparr>
      \<lparr>url = ''/api/projects?token=q'',
       headers = [(''authorization'', ''Bearer h''), (''x-auth-token'', ''x'')],
       query = [(''token'', JStr ''q'')], user = None\<rparr>
     = Next \<lparr>user_id = 1, user_username = ''alice'', user_created_at = ''2024-01-01'',
             user_last_login = None\<rparr>
   \<and> authenticateToken
      (\<lambda>t. if t = ''h'' then Inr \<lparr>userId = 1, username = ''alice''\<rparr>
            else if t = ''x'' then Inl TokenExpiredError else Inl JsonWebTokenError)
      \<lparr>users = Some [\<lparr>row_id = 1, row_username = ''alice'', row_password_hash = ''x'',
                       row_created_at = ''2024-01-01'', row_last_login = None,
                       row_is_active = 1\<rparr>],
       engine_fault = None\<rparr>
      \<lparr>url = ''/api/projects?token=q'', headers = [(''x-auth-token'', ''x'')],
       query = [(''token'', JStr ''q'')], user = None\<rparr>
     = Json 401 ''Token expired''
   \<and> authenticateToken
      (\<lambda>t. if t = ''h'' then Inr \<lparr>userId = 1, username = ''alice''\<rparr>
            else if t = ''x'' then Inl TokenExpiredError else Inl JsonWebTokenError)
      \<lparr>users = Some [\<lparr>row_id = 1, row_username = ''alice'', row_password_hash = ''x'',
                       row_created_at = ''2024-01-01'', row_last_login = None,
                       row_is_active = 1\<rparr>],
       engine_fault = None\<rparr>
      \<lparr>url = ''/api/projects?token=q'', headers = [],
       query = [(''token'', JStr ''q'')], user = None\<rparr>
     = Json 401 ''Invalid token format''
   \<and> authenticateToken
      (\<lambda>t. if t = ''h'' then Inr \<lparr>userId = 1, username = ''alice''\<rparr>
            else if t = ''x'' then Inl TokenExpiredError else Inl JsonWebTokenError)
      \<lparr>users = Some [\<lparr>row_id = 1, row_username = ''alice'', row_password_hash = ''x'',
                       row_created_at = ''2024-01-01'', row_last_login = None,
                       row_is_active = 1\<rparr>],
       engine_fault = None\<rparr>
      \<lparr>url = ''/api/projects?token=h&token=h'', headers = [],
       query = [(''token'', JArray [''h'', ''h''])], user = None\<rparr>
     = Json 401 ''Invalid token format''
   \<and> authenticateToken
      (\<lambda>t. if t = ''h'' then Inr \<lparr>userId = 1, username = ''alice''\<rparr>
            else if t = ''x'' then Inl TokenExpiredError else Inl JsonWebTokenError)
      \<lparr>users = Some [\<lparr>row_id = 1, row_username = ''alice'', row_password_hash = ''x'',
                       row_created_at = ''2024-01-01'', row_last_login = None,
                       row_is_active = 1\<rparr>],
       engine_fault = None\<rparr>
      \<lparr>url = ''/api/projects'', headers = [], query = [], user = None\<rparr>
     = Json 401 ''Access token required''
   \<and> extractWebSocketToken (\<lambda>u. Some [(''token'', ''q'')])
      \<lparr>url = ''/api/projects?token=q'',
       headers = [(''authorization'', ''Bearer h''), (''x-auth-token'', ''x'')],
       query = [(''token'', JStr ''q'')], user = None\<rparr> = Inr (JStr ''q'')"
proof -
  let ?verify = "(\<lambda>t. if t = ''h'' then Inr \<lparr>userId = 1, username = ''alice''\<rparr>
            else if t = ''x'' then Inl TokenExpiredError else Inl JsonWebTokenError)
          :: jwt_verifier"
  let ?db = "\<lparr>users = Some [\<lparr>row_id = 1, row_username = ''alice'', row_password_hash = ''x'',
                       row_created_at = ''2024-01-01'', row_last_login = None,
                       row_is_active = 1\<rparr>],
       engine_fault = None\<rparr>"
  let ?parse = "\<lambda>u::string. Some [(''token'', ''q'')]"
  let ?none = "\<lambda>u::string. None :: (string \<times> string) list option"
  have hdr: "header_token (JStr ''Bearer h'') = JStr ''h''"
    by (simp add: header_token_def js_and_def index_js_def)
  have none: "header_token JUndefined = JUndefined"
    by (simp add: header_token_def js_and_def)
  have alice: "getUserById ?db 1 =
      Inr (Some \<lparr>user_id = 1, user_username = ''alice'', user_created_at = ''2024-01-01'',
                 user_last_login = None\<rparr>)"
    by (simp add: getUserById_def prepare_users_def getAsObject_def select_info_def)
  note defs = prop_js_def prop_val_def searchParams_get_def Let_def
  from authenticateToken_precedence [of ?verify ?db
      "\<lparr>url = ''/api/projects?token=q'',
       headers = [(''authorization'', ''Bearer h''), (''x-auth-token'', ''x'')],
       query = [(''token'', JStr ''q'')], user = None\<rparr>" ?parse] hdr alice
  have a: "authenticateToken ?verify ?db
      \<lparr>url = ''/api/projects?token=q'',
       headers = [(''authorization'', ''Bearer h''), (''x-auth-token'', ''x'')],
       query = [(''token'', JStr ''q'')], user = None\<rparr>
     = Next \<lparr>user_id = 1, user_username = ''alice'', user_created_at = ''2024-01-01'',
             user_last_login = None\<rparr>"
    and ws: "extractWebSocketToken ?parse
      \<lparr>url = ''/api/projects?token=q'',
       headers = [(''authorization'', ''Bearer h''), (''x-auth-token'', ''x'')],
       query = [(''token'', JStr ''q'')], user = None\<rparr> = Inr (JStr ''q'')"
    by (simp_all add: defs)
  from authenticateToken_precedence [of ?verify ?db
      "\<lparr>url = ''/api/projects?token=q'', headers = [(''x-auth-token'', ''x'')],
       query = [(''token'', JStr ''q'')], user = None\<rparr>" ?none] none
  have b: "authenticateToken ?verify ?db
      \<lparr>url = ''/api/projects?token=q'', headers = [(''x-auth-token'', ''x'')],
       query = [(''token'', JStr ''q'')], user = None\<rparr>
     = Json 401 ''Token expired''"
    by (simp add: defs)
  from authenticateToken_precedence [of ?verify ?db
      "\<lparr>url = ''/api/projects?token=q'', headers = [],
       query = [(''token'', JStr ''q'')], user = None\<rparr>" ?none] none
  have c: "authenticateToken ?verify ?db
      \<lparr>url = ''/api/projects?token=q'', headers = [],
       query = [(''token'', JStr ''q'')], user = None\<rparr>
     = Json 401 ''Invalid token format''"
    by (simp add: defs)
  from authenticateToken_precedence [of ?verify ?db
      "\<lparr>url = ''/api/projects?token=h&token=h'', headers = [],
       query = [(''token'', JArray [''h'', ''h''])], user = None\<rparr>" ?none] none
  have d: "authenticateToken ?verify ?db
      \<lparr>url = ''/api/projects?token=h&token=h'', headers = [],
       query = [(''token'', JArray [''h'', ''h''])], user = None\<rparr>
     = Json 401 ''Invalid token format''"
    by (simp add: defs)
  from authenticateToken_precedence [of ?verify ?db
      "\<lparr>url = ''/api/projects'', headers = [], query = [], user = None\<rparr>" ?none] none
  have e: "authenticateToken ?verify ?db
      \<lparr>url = ''/api/projects'', headers = [], query = [], user = None\<rparr>
     = Json 401 ''Access token required''"
    by (simp add: defs)
  from a b c d e ws show ?thesis by (intro conjI)
qed

section \<open>Properties of the user database\<close>

text \<open>
  Claim C9. \<^verbatim>\<open>hasUsers\<close> never raises: whenever preparing the query fails (the
  \<^verbatim>\<open>users\<close> table does not exist yet, or the engine reports any other error) it
  returns false, and when the table exists it tells whether the table has a row.
\<close>

theorem hasUsers_never_raises:
  "(\<exists>b. hasUsers db = Inr b)
   \<and> (\<forall>err. prepare_users db = Inl err \<longrightarrow> hasUsers db = Inr False)
   \<and> hasUsers \<lparr>users = None, engine_fault = fault\<rparr> = Inr False
   \<and> (\<forall>rows. prepare_users db = Inr rows \<longrightarrow> hasUsers db = Inr (rows \<noteq> []))"
  by (auto simp: hasUsers_def hasUsers_try_def prepare_users_def select_count_def
           split: sum.splits option.splits list.splits)

theorem hasUsers_never_raises_witness:
  "hasUsers \<lparr>users = None, engine_fault = None\<rparr> = Inr False
   \<and> hasUsers \<lparr>users = Some [], engine_fault = Some ''file is not a database''\<rparr> = Inr False
   \<and> hasUsers \<lparr>users = Some [], engine_fault = None\<rparr> = Inr False
   \<and> hasUsers \<lparr>users = Some [\<lparr>row_id = 1, row_username = ''alice'',
                   row_password_hash = ''x'', row_created_at = ''2024-01-01'',
                   row_last_login = None, row_is_active = 1\<rparr>],
               engine_fault = None\<rparr> = Inr True"
  using
    hasUsers_never_raises [of "\<lparr>users = None, engine_fault = None\<rparr>" None]
    hasUsers_never_raises [of
      "\<lparr>users = Some [], engine_fault = Some ''file is not a database''\<rparr>" None]
    hasUsers_never_raises [of "\<lparr>users = Some [], engine_fault = None\<rparr>" None]
    hasUsers_never_raises [of
      "\<lparr>users = Some [\<lparr>row_id = 1, row_username = ''alice'',
                   row_password_hash = ''x'', row_created_at = ''2024-01-01'',
                   row_last_login = None, row_is_active = 1\<rparr>],
        engine_fault = None\<rparr>" None]
  by (simp add: prepare_users_def)

text \<open>A row picked from the rows that pass a filter is one of the rows and passes it.\<close>

lemma getAsObject_filter_Some:
  assumes "getAsObject (filter P rows) = Some r"
  shows "r \<in> set rows \<and> P r"
proof -
  from assms obtain rest where "filter P rows = r # rest"
    by (auto simp: getAsObject_def split: list.splits)
  then have "r \<in> set (filter P rows)" by simp
  then show ?thesis by simp
qed

lemma getAsObject_filter_None:
  assumes "\<forall>r \<in> set rows. \<not> P r"
  shows "getAsObject (filter P rows) = None"
proof -
  from assms have "filter P rows = []" by (simp add: filter_empty_conv)
  then show ?thesis by (simp add: getAsObject_def)
qed

lemma getUserById_Some:
  assumes "getUserById db uid = Inr (Some u)"
  shows "\<exists>rows r. users db = Some rows \<and> r \<in> set rows \<and> row_id r = uid
           \<and> row_is_active r = 1 \<and> u = select_info r"
proof -
  from assms obtain rows where rows: "prepare_users db = Inr rows"
    by (auto simp: getUserById_def split: sum.splits)
  then have tab: "users db = Some rows"
    by (auto simp: prepare_users_def split: option.splits)
  from assms rows obtain r
    where r: "getAsObject (filter (\<lambda>r. row_id r = uid \<and> row_is_active r = 1) rows) = Some r"
      and u: "u = select_info r"
    by (auto simp: getUserById_def Let_def split: option.splits if_splits)
  from getAsObject_filter_Some [OF r] tab u show ?thesis by blast
qed

lemma getUserByUsername_Some:
  assumes "getUserByUsername db name = Inr (Some r)"
  shows "\<exists>rows. users db = Some rows \<and> r \<in> set rows \<and> row_username r = name
           \<and> row_is_active r = 1"
proof -
  from assms obtain rows where rows: "prepare_users db = Inr rows"
    by (auto simp: getUserByUsername_def split: sum.splits)
  then have tab: "users db = Some rows"
    by (auto simp: prepare_users_def split: option.splits)
  from assms rows
  have r: "getAsObject (filter (\<lambda>r. row_username r = name \<and> row_is_active r = 1) rows) = Some r"
    by (auto simp: getUserByUsername_def Let_def split: option.splits if_splits)
  from getAsObject_filter_Some [OF r] tab show ?thesis by blast
qed

lemma getUserById_deactivated:
  assumes "prepare_users db = Inr rows"
    and "\<forall>r \<in> set rows. row_id r = uid \<longrightarrow> row_is_active r \<noteq> 1"
  shows "getUserById db uid = Inr None"
proof -
  have "getAsObject (filter (\<lambda>r. row_id r = uid \<and> row_is_active r = 1) rows) = None"
    using assms(2) by (intro getAsObject_filter_None) auto
  with assms(1) show ?thesis by (simp add: getUserById_def)
qed

lemma getUserByUsername_deactivated:
  assumes "prepare_users db = Inr rows"
    and "\<forall>r \<in> set rows. row_username r = name \<longrightarrow> row_is_active r \<noteq> 1"
  shows "getUserByUsername db name = Inr None"
proof -
  have "getAsObject (filter (\<lambda>r. row_username r = name \<and> row_is_active r = 1) rows) = None"
    using assms(2) by (intro getAsObject_filter_None) auto
  with assms(1) show ?thesis by (simp add: getUserByUsername_def)
qed

text \<open>
  Claim C8. \<^verbatim>\<open>getUserById\<close> and \<^verbatim>\<open>getUserByUsername\<close> return a user only when
  a row with that key exists and has \<^verbatim>\<open>is_active = 1\<close>. When every row with the
  key is deactivated they return null, so a token that still verifies but belongs to a
  deactivated user fails authentication, on the upgrade path and on HTTP routes.
\<close>

theorem lookups_active_only:
  "(\<forall>u. getUserById db uid = Inr (Some u) \<longrightarrow>
       (\<exists>rows r. users db = Some rows \<and> r \<in> set rows \<and> row_id r = uid
                  \<and> row_is_active r = 1 \<and> u = select_info r))
   \<and> (\<forall>r. getUserByUsername db name = Inr (Some r) \<longrightarrow>
       (\<exists>rows. users db = Some rows \<and> r \<in> set rows \<and> row_username r = name
                \<and> row_is_active r = 1))
   \<and> (\<forall>rows. prepare_users db = Inr rows
          \<and> (\<forall>r \<in> set rows. row_username r = name \<longrightarrow> row_is_active r \<noteq> 1)
        \<longrightarrow> getUserByUsername db name = Inr None)
   \<and> (\<forall>rows. prepare_users db = Inr rows
          \<and> (\<forall>r \<in> set rows. row_id r = uid \<longrightarrow> row_is_active r \<noteq> 1)
        \<longrightarrow> getUserById db uid = Inr None
            \<and> (\<forall>t decoded. t \<noteq> [] \<and> verify t = Inr decoded \<and> userId decoded = uid
                 \<longrightarrow> authenticateWebSocket verify db (JStr t) = Inr None
                     \<and> (extractHttpToken req = JStr t
                          \<longrightarrow> authenticateToken verify db req =
                                Json 401 ''Invalid token: user not found'')))"
proof (intro conjI allI impI)
  fix u assume "getUserById db uid = Inr (Some u)"
  then show "\<exists>rows r. users db = Some rows \<and> r \<in> set rows \<and> row_id r = uid
                  \<and> row_is_active r = 1 \<and> u = select_info r"
    by (rule getUserById_Some)
next
  fix r assume "getUserByUsername db name = Inr (Some r)"
  then show "\<exists>rows. users db = Some rows \<and> r \<in> set rows \<and> row_username r = name
                \<and> row_is_active r = 1"
    by (rule getUserByUsername_Some)
next
  fix rows
  assume "prepare_users db = Inr rows
          \<and> (\<forall>r \<in> set rows. row_username r = name \<longrightarrow> row_is_active r \<noteq> 1)"
  then show "getUserByUsername db name = Inr None"
    by (blast intro: getUserByUsername_deactivated)
next
  fix rows
  assume "prepare_users db = Inr rows
          \<and> (\<forall>r \<in> set rows. row_id r = uid \<longrightarrow> row_is_active r \<noteq> 1)"
  then show "getUserById db uid = Inr None"
    by (blast intro: getUserById_deactivated)
next
  fix rows t decoded
  assume a: "prepare_users db = Inr rows
          \<and> (\<forall>r \<in> set rows. row_id r = uid \<longrightarrow> row_is_active r \<noteq> 1)"
    and b: "t \<noteq> [] \<and> verify t = Inr decoded \<and> jwt_payload.userId decoded = uid"
  from a have "getUserById db uid = Inr None"
    by (blast intro: getUserById_deactivated)
  with b show "authenticateWebSocket verify db (JStr t) = Inr None"
    by (simp add: authenticateWebSocket_def authenticateWebSocket_try_def)
next
  fix rows t decoded
  assume a: "prepare_users db = Inr rows
          \<and> (\<forall>r \<in> set rows. row_id r = uid \<longrightarrow> row_is_active r \<noteq> 1)"
    and b: "t \<noteq> [] \<and> verify t = Inr decoded \<and> jwt_payload.userId decoded = uid"
    and c: "extractHttpToken req = JStr t"
  from a have "getUserById db uid = Inr None"
    by (blast intro: getUserById_deactivated)
  with b c show "authenticateToken verify db req = Json 401 ''Invalid token: user not found''"
    by (simp add: authenticateToken_def authenticateToken_try_def)
qed

theorem lookups_active_only_witness:
  "(\<exists>r. getUserById
      \<lparr>users = Some [\<lparr>row_id = 1, row_username = ''alice'', row_password_hash = ''x'',
                       row_created_at = ''2024-01-01'', row_last_login = None,
                       row_is_active = 1\<rparr>,
                     \<lparr>row_id = 2, row_username = ''bob'', row_password_hash = ''y'',
                       row_created_at = ''2024-01-02'', row_last_login = None,
                       row_is_active = 0\<rparr>],
       engine_fault = None\<rparr> 1 = Inr (Some (select_info r))
        \<and> row_id r = 1 \<and> row_is_active r = 1)
   \<and> (\<exists>r. getUserByUsername
      \<lparr>users = Some [\<lparr>row_id = 1, row_username = ''alice'', row_password_hash = ''x'',
                       row_created_at = ''2024-01-01'', row_last_login = None,
                       row_is_active = 1\<rparr>,
                     \<lparr>row_id = 2, row_username = ''bob'', row_password_hash = ''y'',
                       row_created_at = ''2024-01-02'', row_last_login = None,
                       row_is_active = 0\<rparr>],
       engine_fault = None\<rparr> ''alice'' = Inr (Some r)
        \<and> row_is_active r = 1 \<and> row_username r = ''alice'')
   \<and> getUserById
      \<lparr>users = Some [\<lparr>row_id = 1, row_username = ''alice'', row_password_hash = ''x'',
                       row_created_at = ''2024-01-01'', row_last_login = None,
                       row_is_active = 1\<rparr>,
                     \<lparr>row_id = 2, row_username = ''bob'', row_password_hash = ''y'',
                       row_created_at = ''2024-01-02'', row_last_login = None,
                       row_is_active = 0\<rparr>],
       engine_fault = None\<rparr> 2 = Inr None
   \<and> getUserByUsername
      \<lparr>users = Some [\<lparr>row_id = 1, row_username = ''alice'', row_password_hash = ''x'',
                       row_created_at = ''2024-01-01'', row_last_login = None,
                       row_is_active = 1\<rparr>,
                     \<lparr>row_id = 2, row_username = ''bob'', row_password_hash = ''y'',
                       row_created_at = ''2024-01-02'', row_last_login = None,
                       row_is_active = 0\<rparr>],
       engine_fault = None\<rparr> ''bob'' = Inr None
   \<and> authenticateWebSocket (\<lambda>t. Inr \<lparr>userId = 2, username = ''bob''\<rparr>)
      \<lparr>users = Some [\<lparr>row_id = 1, row_username = ''alice'', row_password_hash = ''x'',
                       row_created_at = ''2024-01-01'', row_last_login = None,
                       row_is_active = 1\<rparr>,
                     \<lparr>row_id = 2, row_username = ''bob'', row_password_hash = ''y'',
                       row_created_at = ''2024-01-02'', row_last_login = None,
                       row_is_active = 0\<rparr>],
       engine_fault = None\<rparr> (JStr ''valid'') = Inr None
   \<and> authenticateToken (\<lambda>t. Inr \<lparr>userId = 2, username = ''bob''\<rparr>)
      \<lparr>users = Some [\<lparr>row_id = 1, row_username = ''alice'', row_password_hash = ''x'',
                       row_created_at = ''2024-01-01'', row_last_login = None,
                       row_is_active = 1\<rparr>,
                     \<lparr>row_id = 2, row_username = ''bob'', row_password_hash = ''y'',
                       row_created_at = ''2024-01-02'', row_last_login = None,
                       row_is_active = 0\<rparr>],
       engine_fault = None\<rparr>
      \<lparr>url = ''/api/projects'', headers = [(''authorization'', ''Bearer valid'')],
       query = [], user = None\<rparr> = Json 401 ''Invalid token: user not found''"
proof -
  let ?rows = "[\<lparr>row_id = 1, row_username = ''alice'', row_password_hash = ''x'',
                       row_created_at = ''2024-01-01'', row_last_login = None,
                       row_is_active = 1\<rparr>,
                     \<lparr>row_id = 2, row_username = ''bob'', row_password_hash = ''y'',
                       row_created_at = ''2024-01-02'', row_last_login = None,
                       row_is_active = 0\<rparr>]"
  let ?db = "\<lparr>users = Some ?rows, engine_fault = None\<rparr>"
  let ?verify = "\<lambda>t::string. Inr \<lparr>userId = 2, username = ''bob''\<rparr> :: js_error + jwt_payload"
  let ?req = "\<lparr>url = ''/api/projects'', headers = [(''authorization'', ''Bearer valid'')],
       query = [], user = None\<rparr>"
  have prep: "prepare_users ?db = Inr ?rows"
    by (simp add: prepare_users_def)
  have byid: "\<forall>r \<in> set ?rows. row_id r = 2 \<longrightarrow> row_is_active r \<noteq> 1"
    by simp
  have byname: "\<forall>r \<in> set ?rows. row_username r = ''bob'' \<longrightarrow> row_is_active r \<noteq> 1"
    by simp
  have tok: "extractHttpToken ?req = JStr ''valid''"
    by (simp add: extractHttpToken_def prop_js_def header_token_def js_and_def js_or_def
        index_js_def)
  have ver: "''valid'' \<noteq> [] \<and> ?verify ''valid'' = Inr \<lparr>userId = 2, username = ''bob''\<rparr>
             \<and> userId \<lparr>userId = 2, username = ''bob''\<rparr> = 2"
    by simp
  note main = lookups_active_only [of ?db 2 "''bob''" ?verify ?req]
  from main prep byname have n: "getUserByUsername ?db ''bob'' = Inr None"
    by blast
  from main prep byid have i: "getUserById ?db 2 = Inr None"
    by blast
  from main prep byid ver
  have w: "authenticateWebSocket ?verify ?db (JStr ''valid'') = Inr None"
    by blast
  from main prep byid ver tok
  have h: "authenticateToken ?verify ?db ?req = Json 401 ''Invalid token: user not found''"
    by blast
  let ?alice = "\<lparr>row_id = 1, row_username = ''alice'', row_password_hash = ''x'',
                 row_created_at = ''2024-01-01'', row_last_login = None,
                 row_is_active = 1\<rparr>"
  have byid_alice: "getUserById ?db 1 = Inr (Some (select_info ?alice))"
    by (simp add: getUserById_def prepare_users_def getAsObject_def)
  have byname_alice: "getUserByUsername ?db ''alice'' = Inr (Some ?alice)"
    by (simp add: getUserByUsername_def prepare_users_def getAsObject_def)
  note active = lookups_active_only [of ?db 1 "''alice''" ?verify ?req]
  note first = active [THEN conjunct1, rule_format, OF byid_alice]
  note second = active [THEN conjunct2, THEN conjunct1, rule_format, OF byname_alice]
  from first obtain rows r where r: "row_id r = 1" "row_is_active r = 1"
    "select_info ?alice = select_info r"
    by (elim exE conjE)
  from byid_alice r(3) have "getUserById ?db 1 = Inr (Some (select_info r))"
    by (simp only:)
  with r have ai: "\<exists>r. getUserById ?db 1 = Inr (Some (select_info r))
        \<and> row_id r = 1 \<and> row_is_active r = 1"
    by (intro exI [of _ r] conjI)
  from second obtain rows' where s: "row_username ?alice = ''alice''" "row_is_active ?alice = 1"
    by (elim exE conjE)
  from byname_alice s have an: "\<exists>r. getUserByUsername ?db ''alice'' = Inr (Some r)
        \<and> row_is_active r = 1 \<and> row_username r = ''alice''"
    by (intro exI [of _ ?alice] conjI)
  from ai an i n w h show ?thesis by (intro conjI)
qed

section \<open>Properties of connection-time authentication\<close>

text \<open>
  Claim C5. For every credential (missing, malformed, expired, naming a user that does
  not exist, or arriving while the database fails), \<^verbatim>\<open>authenticateWebSocket\<close>
  returns null or a principal made of the id and the username of the user the database
  returned for the token's user id; it never throws.
\<close>

theorem authenticateWebSocket_never_throws:
  "authenticateWebSocket verify db token = Inr None
   \<or> (\<exists>t decoded u.
         token = JStr t \<and> t \<noteq> [] \<and> verify t = Inr decoded
         \<and> getUserById db (userId decoded) = Inr (Some u)
         \<and> authenticateWebSocket verify db token =
             Inr (Some \<lparr>principal_id = user_id u, principal_username = user_username u\<rparr>))"
  by (cases token)
     (auto simp: authenticateWebSocket_def authenticateWebSocket_try_def
           split: sum.splits option.splits)

theorem authenticateWebSocket_never_throws_witness:
  "authenticateWebSocket (\<lambda>t. Inl TokenExpiredError)
      \<lparr>users = Some [], engine_fault = None\<rparr> (JStr ''expired'') = Inr None
   \<and> authenticateWebSocket (\<lambda>t. Inr \<lparr>userId = 7, username = ''ghost''\<rparr>)
      \<lparr>users = None, engine_fault = None\<rparr> (JStr ''good'') = Inr None
   \<and> authenticateWebSocket (\<lambda>t. Inr \<lparr>userId = 7, username = ''ghost''\<rparr>)
      \<lparr>users = Some [], engine_fault = None\<rparr> JUndefined = Inr None
   \<and> authenticateWebSocket (\<lambda>t. Inr \<lparr>userId = 1, username = ''alice''\<rparr>)
      \<lparr>users = Some [\<lparr>row_id = 1, row_username = ''alice'', row_password_hash = ''x'',
                       row_created_at = ''2024-01-01'', row_last_login = None,
                       row_is_active = 1\<rparr>],
       engine_fault = None\<rparr> (JStr ''good'')
     = Inr (Some \<lparr>principal_id = 1, principal_username = ''alice''\<rparr>)"
  using
    authenticateWebSocket_never_throws [of "\<lambda>t. Inl TokenExpiredError"
      "\<lparr>users = Some [], engine_fault = None\<rparr>" "JStr ''expired''"]
    authenticateWebSocket_never_throws [of "\<lambda>t. Inr \<lparr>userId = 7, username = ''ghost''\<rparr>"
      "\<lparr>users = None, engine_fault = None\<rparr>" "JStr ''good''"]
    authenticateWebSocket_never_throws [of "\<lambda>t. Inr \<lparr>userId = 7, username = ''ghost''\<rparr>"
      "\<lparr>users = Some [], engine_fault = None\<rparr>" JUndefined]
    authenticateWebSocket_never_throws [of "\<lambda>t. Inr \<lparr>userId = 1, username = ''alice''\<rparr>"
      "\<lparr>users = Some [\<lparr>row_id = 1, row_username = ''alice'', row_password_hash = ''x'',
                       row_created_at = ''2024-01-01'', row_last_login = None,
                       row_is_active = 1\<rparr>],
       engine_fault = None\<rparr>" "JStr ''good''"]
  by (simp add: authenticateWebSocket_def authenticateWebSocket_try_def getUserById_def
        prepare_users_def getAsObject_def select_info_def)

text \<open>
  Claim C2. For every upgrade request whose credential the identity verifier rejects,
  \<^verbatim>\<open>verifyClient\<close> returns false and leaves the request without a user, and the
  upgrade is rejected with no channel opened and the connected clients unchanged. A
  channel is opened, or the connected clients change, only when the verifier has
  returned a principal, and then the only event is the opening of that channel.
\<close>

theorem rejected_credential_opens_nothing:
  "(\<forall>token. extractWebSocketToken parse req = Inr token
        \<and> authenticateWebSocket verify db token = Inr None
      \<longrightarrow> verifyClient parse verify db req = Inr (False, req)
          \<and> Upgrade parse verify db gw req = (gw, [UpgradeRejected 401]))
   \<and> (list_ex opened (snd (Upgrade parse verify db gw req))
        \<or> clients (fst (Upgrade parse verify db gw req)) \<noteq> clients gw
      \<longrightarrow> (\<exists>token p. extractWebSocketToken parse req = Inr token
             \<and> authenticateWebSocket verify db token = Inr (Some p)
             \<and> Upgrade parse verify db gw req =
                 (gw\<lparr>clients := \<lparr>conn_principal = p, conn_url = url req\<rparr> # clients gw\<rparr>,
                  [ChannelOpened \<lparr>conn_principal = p, conn_url = url req\<rparr>])))"
  by (auto simp: verifyClient_def Upgrade_def opened_def Let_def
           split: sum.splits option.splits if_splits prod.splits)

theorem rejected_credential_opens_nothing_witness:
  "verifyClient (\<lambda>u. Some [(''token'', ''forged'')]) (\<lambda>t. Inl JsonWebTokenError)
      \<lparr>users = Some [], engine_fault = None\<rparr>
      \<lparr>url = ''/ws?token=forged'', headers = [], query = [], user = None\<rparr>
     = Inr (False, \<lparr>url = ''/ws?token=forged'', headers = [], query = [], user = None\<rparr>)
   \<and> Upgrade (\<lambda>u. Some [(''token'', ''forged'')]) (\<lambda>t. Inl JsonWebTokenError)
      \<lparr>users = Some [], engine_fault = None\<rparr> \<lparr>clients = []\<rparr>
      \<lparr>url = ''/ws?token=forged'', headers = [], query = [], user = None\<rparr>
     = (\<lparr>clients = []\<rparr>, [UpgradeRejected 401])
   \<and> (\<exists>p. authenticateWebSocket (\<lambda>t. Inr \<lparr>userId = 1, username = ''alice''\<rparr>)
            \<lparr>users = Some [\<lparr>row_id = 1, row_username = ''alice'', row_password_hash = ''x'',
                             row_created_at = ''2024-01-01'', row_last_login = None,
                             row_is_active = 1\<rparr>],
             engine_fault = None\<rparr> (JStr ''good'') = Inr (Some p)
          \<and> Upgrade (\<lambda>u. Some [(''token'', ''good'')])
              (\<lambda>t. Inr \<lparr>userId = 1, username = ''alice''\<rparr>)
              \<lparr>users = Some [\<lparr>row_id = 1, row_username = ''alice'',
                               row_password_hash = ''x'', row_created_at = ''2024-01-01'',
                               row_last_login = None, row_is_active = 1\<rparr>],
               engine_fault = None\<rparr> \<lparr>clients = []\<rparr>
              \<lparr>url = ''/ws?token=good'', headers = [], query = [], user = None\<rparr>
            = (\<lparr>clients = [\<lparr>conn_principal = p, conn_url = ''/ws?token=good''\<rparr>]\<rparr>,
               [ChannelOpened \<lparr>conn_principal = p, conn_url = ''/ws?token=good''\<rparr>]))"
proof -
  let ?parse = "\<lambda>u::string. Some [(''token'', ''forged'')]"
  let ?verify = "\<lambda>t::string. Inl JsonWebTokenError :: js_error + jwt_payload"
  let ?db = "\<lparr>users = Some [], engine_fault = None\<rparr>"
  let ?req = "\<lparr>url = ''/ws?token=forged'', headers = [], query = [], user = None\<rparr>"
  have tok: "extractWebSocketToken ?parse ?req = Inr (JStr ''forged'')"
    by (simp add: extractWebSocketToken_def searchParams_get_def js_or_def)
  have rej: "authenticateWebSocket ?verify ?db (JStr ''forged'') = Inr None"
    by (simp add: authenticateWebSocket_def authenticateWebSocket_try_def)
  from rejected_credential_opens_nothing [of ?parse ?req ?verify ?db "\<lparr>clients = []\<rparr>"] tok rej
  have rejected: "verifyClient ?parse ?verify ?db ?req = Inr (False, ?req)
      \<and> Upgrade ?parse ?verify ?db \<lparr>clients = []\<rparr> ?req = (\<lparr>clients = []\<rparr>, [UpgradeRejected 401])"
    by blast
  let ?parse' = "\<lambda>u::string. Some [(''token'', ''good'')]"
  let ?verify' = "\<lambda>t::string. Inr \<lparr>userId = 1, username = ''alice''\<rparr> :: js_error + jwt_payload"
  let ?db' = "\<lparr>users = Some [\<lparr>row_id = 1, row_username = ''alice'', row_password_hash = ''x'',
                             row_created_at = ''2024-01-01'', row_last_login = None,
                             row_is_active = 1\<rparr>],
             engine_fault = None\<rparr>"
  let ?req' = "\<lparr>url = ''/ws?token=good'', headers = [], query = [], user = None\<rparr>"
  have tok': "extractWebSocketToken ?parse' ?req' = Inr (JStr ''good'')"
    by (simp add: extractWebSocketToken_def searchParams_get_def js_or_def)
  have "list_ex opened (snd (Upgrade ?parse' ?verify' ?db' \<lparr>clients = []\<rparr> ?req'))"
    by (simp add: Upgrade_def verifyClient_def extractWebSocketToken_def searchParams_get_def
        js_or_def authenticateWebSocket_def authenticateWebSocket_try_def getUserById_def
        prepare_users_def getAsObject_def select_info_def opened_def Let_def)
  with rejected_credential_opens_nothing [of ?parse' ?req' ?verify' ?db' "\<lparr>clients = []\<rparr>"]
  obtain token p where "extractWebSocketToken ?parse' ?req' = Inr token"
    and "authenticateWebSocket ?verify' ?db' token = Inr (Some p)"
    and "Upgrade ?parse' ?verify' ?db' \<lparr>clients = []\<rparr> ?req' =
           (\<lparr>clients = []\<rparr>\<lparr>clients := \<lparr>conn_principal = p, conn_url = url ?req'\<rparr>
                                        # clients \<lparr>clients = []\<rparr>\<rparr>,
            [ChannelOpened \<lparr>conn_principal = p, conn_url = url ?req'\<rparr>])"
    by blast
  with tok' have accepted:
    "\<exists>p. authenticateWebSocket ?verify' ?db' (JStr ''good'') = Inr (Some p)
       \<and> Upgrade ?parse' ?verify' ?db' \<lparr>clients = []\<rparr> ?req' =
           (\<lparr>clients = [\<lparr>conn_principal = p, conn_url = ''/ws?token=good''\<rparr>]\<rparr>,
            [ChannelOpened \<lparr>conn_principal = p, conn_url = ''/ws?token=good''\<rparr>])"
    by simp
  from rejected accepted show ?thesis by blast
qed

section \<open>Properties of the session lifecycle\<close>

lemma rank_transition: "rank s \<le> rank (transition s op)"
  by (cases s; cases op) simp_all

lemma regular_transition_in_order: "regular_op op \<Longrightarrow> in_order s (transition s op)"
  by (cases s; cases op) (simp_all add: in_order_def)

lemma trace_rank_lower: "x \<in> set (trace s ops) \<Longrightarrow> rank s \<le> rank x"
proof (induction ops arbitrary: s)
  case Nil
  then show ?case by simp
next
  case (Cons op ops)
  from Cons.prems have "x = s \<or> x \<in> set (trace (transition s op) ops)" by simp
  then show ?case
  proof
    assume "x = s" then show ?thesis by simp
  next
    assume "x \<in> set (trace (transition s op) ops)"
    then have "rank (transition s op) \<le> rank x" by (rule Cons.IH)
    with rank_transition [of s op] show ?thesis by (rule le_trans)
  qed
qed

lemma trace_never_backward: "sorted_wrt (\<lambda>a b. rank a \<le> rank b) (trace s ops)"
proof (induction ops arbitrary: s)
  case Nil
  then show ?case by simp
next
  case (Cons op ops)
  have "\<forall>x \<in> set (trace (transition s op) ops). rank s \<le> rank x"
  proof
    fix x assume "x \<in> set (trace (transition s op) ops)"
    then have "rank (transition s op) \<le> rank x" by (rule trace_rank_lower)
    with rank_transition [of s op] show "rank s \<le> rank x" by (rule le_trans)
  qed
  with Cons.IH [of "transition s op"] show ?case by simp
qed

lemma trace_hd: "\<exists>rest. trace s ops = s # rest"
  by (cases ops) simp_all

lemma trace_ordered: "list_all regular_op ops \<Longrightarrow> ordered_history (trace s ops)"
proof (induction ops arbitrary: s)
  case Nil
  then show ?case by simp
next
  case (Cons op ops)
  obtain rest where rest: "trace (transition s op) ops = transition s op # rest"
    using trace_hd by blast
  from Cons.prems have "regular_op op" and "list_all regular_op ops" by simp_all
  then have "in_order s (transition s op)" and "ordered_history (trace (transition s op) ops)"
    by (simp_all add: regular_transition_in_order Cons.IH)
  with rest show ?case by simp
qed

text \<open>
  Claim C3. For every session state and every sequence of lifecycle operations, the
  states the session passes through never go backward along
  \<^verbatim>\<open>spawning -> running -> draining -> terminated\<close>; and when the operations are
  spawn success, explicit terminate, idle timeout, process exit, exit observed and
  grace-period elapse, every observed step either keeps the state or moves to the next
  state of the chain, so nothing happens out of order.
\<close>

theorem lifecycle_forward_only:
  "sorted_wrt (\<lambda>a b. rank a \<le> rank b) (trace s ops)
   \<and> (list_all regular_op ops \<longrightarrow> ordered_history (trace s ops))"
  by (simp add: trace_never_backward trace_ordered)

theorem lifecycle_forward_only_witness:
  "trace Spawning [SpawnSuccess, GracePeriodElapsed, IdleTimeout, SpawnSuccess, ProcessExit,
                   GracePeriodElapsed, ExplicitTerminate]
     = [Spawning, Running, Running, Draining, Draining, Draining, Terminated, Terminated]
   \<and> list_all regular_op [SpawnSuccess, GracePeriodElapsed, IdleTimeout, SpawnSuccess,
                          ProcessExit, GracePeriodElapsed, ExplicitTerminate]
   \<and> ordered_history [Spawning, Running, Running, Draining, Draining, Draining, Terminated,
                       Terminated]
   \<and> sorted_wrt (\<lambda>a b. rank a \<le> rank b)
        [Spawning, Running, Running, Draining, Draining, Draining, Terminated, Terminated]"
proof -
  let ?ops = "[SpawnSuccess, GracePeriodElapsed, IdleTimeout, SpawnSuccess, ProcessExit,
               GracePeriodElapsed, ExplicitTerminate]"
  have t: "trace Spawning ?ops =
             [Spawning, Running, Running, Draining, Draining, Draining, Terminated, Terminated]"
    by simp
  have r: "list_all regular_op ?ops" by simp
  from lifecycle_forward_only [of Spawning ?ops] r t show ?thesis
    by simp
qed

text \<open>
  Claim C4. For every Create call whose spawn fails, the call returns a session (nothing
  is thrown): the session is the new, spawning session after the spawn-failure
  transition, its state is terminated and it carries the diagnostics of the failure.
  A transition that skips a state of the chain can only be this one: from spawning to
  terminated, by a spawn failure.
\<close>

theorem spawn_failure_terminal:
  "(\<forall>d. spawn k path resumeId = Inl d \<longrightarrow>
       Create spawn sid k path resumeId now =
         apply_op (new_session sid k path now) (SpawnFailure d)
       \<and> state (new_session sid k path now) = Spawning
       \<and> state (Create spawn sid k path resumeId now) = Terminated
       \<and> exitInfo (Create spawn sid k path resumeId now) = Some d
       \<and> processHandle (Create spawn sid k path resumeId now) = None)
   \<and> (\<forall>h. spawn k path resumeId = Inr h \<longrightarrow>
       state (Create spawn sid k path resumeId now) = Running)
   \<and> (\<forall>s op. Suc (rank s) < rank (transition s op) \<longrightarrow>
       s = Spawning \<and> transition s op = Terminated \<and> (\<exists>d. op = SpawnFailure d))"
proof (intro conjI allI impI)
  fix s op assume a: "Suc (rank s) < rank (transition s op)"
  then show "s = Spawning" by (cases s; cases op) simp_all
  from a show "transition s op = Terminated" by (cases s; cases op) simp_all
  from a show "\<exists>d. op = SpawnFailure d" by (cases s; cases op) simp_all
qed (simp_all add: Create_def new_session_def apply_op_def)

theorem spawn_failure_terminal_witness:
  "state (Create (\<lambda>k p r. Inl ''ENOENT: claude not found'') ''s1'' Conversation ''/tmp/p1''
            None 10) = Terminated
   \<and> exitInfo (Create (\<lambda>k p r. Inl ''ENOENT: claude not found'') ''s1'' Conversation
                 ''/tmp/p1'' None 10) = Some ''ENOENT: claude not found''
   \<and> state (Create (\<lambda>k p r. Inr 4242) ''s2'' Shell ''/tmp/p1'' None 10) = Running
   \<and> Suc (rank Spawning) < rank (transition Spawning (SpawnFailure ''exit 1''))"
  using
    spawn_failure_terminal [of "\<lambda>k p r. Inl ''ENOENT: claude not found''" Conversation
      "''/tmp/p1''" None "''s1''" 10]
    spawn_failure_terminal [of "\<lambda>k p r. Inr 4242" Shell "''/tmp/p1''" None "''s2''" 10]
  by (simp add: Create_def new_session_def apply_op_def)

section \<open>Properties of the registry under transport events\<close>

lemma state_detach [simp]: "state (detach cid s) = state s"
  by (simp add: detach_def)

lemma transport_step_state:
  "transport_event ev \<Longrightarrow> state_of (registry_step threshold reg ev) sid = state_of reg sid"
proof (cases ev)
  case (PumpEnded sid' cid)
  then show ?thesis
    by (cases "sessions reg sid'") (simp_all add: state_of_def)
next
  case (ConnectionClosed cid)
  then show ?thesis
    by (cases "sessions reg sid") (simp_all add: state_of_def)
qed simp_all

lemma transport_run_state:
  "list_all transport_event evs \<Longrightarrow>
     state_of (registry_run threshold reg evs) sid = state_of reg sid"
  by (induction evs arbitrary: reg) (simp_all add: transport_step_state)

lemma state_apply_op [simp]: "state (apply_op s op) = transition (state s) op"
  by (simp add: apply_op_def)

lemma transition_leaves_running:
  "transition Running op \<noteq> Running \<Longrightarrow>
     op = ExplicitTerminate \<or> op = IdleTimeout \<or> op = ProcessExit"
  by (cases op) simp_all

lemma leaves_running_Op:
  assumes "state_of reg sid = Some Running"
    and "state_of (registry_step threshold reg (Op sid' op)) sid \<noteq> Some Running"
  shows "sid' = sid \<and> (op = ExplicitTerminate \<or> op = IdleTimeout \<or> op = ProcessExit)"
proof -
  from assms(1) obtain s where s: "sessions reg sid = Some s" "state s = Running"
    by (auto simp: state_of_def)
  have same: "sid' = sid"
  proof (rule ccontr)
    assume "sid' \<noteq> sid"
    then have "state_of (registry_step threshold reg (Op sid' op)) sid = state_of reg sid"
      by (cases "sessions reg sid'") (simp_all add: state_of_def)
    with assms show False by simp
  qed
  have "transition Running op \<noteq> Running"
  proof
    assume "transition Running op = Running"
    with s same have "state_of (registry_step threshold reg (Op sid' op)) sid = Some Running"
      by (simp add: state_of_def settle_def)
    with assms(2) show False by simp
  qed
  with same show ?thesis by (simp add: transition_leaves_running)
qed

lemma leaves_running_Reaper:
  assumes "state_of reg sid = Some Running"
    and "state_of (registry_step threshold reg (ReaperTick now)) sid \<noteq> Some Running"
  shows "\<exists>s. sessions reg sid = Some s \<and> attached s = [] \<and> lastActivityAt s + threshold < now"
proof -
  from assms(1) obtain s where s: "sessions reg sid = Some s" "state s = Running"
    by (auto simp: state_of_def)
  have "attached s = [] \<and> lastActivityAt s + threshold < now"
  proof (rule ccontr)
    assume "\<not> (attached s = [] \<and> lastActivityAt s + threshold < now)"
    then have "reap threshold now s = s" by (auto simp: reap_def)
    with s have "state_of (registry_step threshold reg (ReaperTick now)) sid = Some Running"
      by (simp add: state_of_def)
    with assms(2) show False by simp
  qed
  with s show ?thesis by simp
qed

lemma stays_running_Attach:
  "state_of (registry_step threshold reg (Attach sid' cid now)) sid = state_of reg sid"
  by (cases "sessions reg sid'") (simp_all add: state_of_def)

lemma stays_running_Input:
  "state_of (registry_step threshold reg (Input sid' now)) sid = state_of reg sid"
  by (cases "sessions reg sid'") (simp_all add: state_of_def)

lemma leaves_running:
  assumes "state_of reg sid = Some Running"
    and "state_of (registry_step threshold reg ev) sid \<noteq> Some Running"
  shows "ev = Op sid ExplicitTerminate \<or> ev = Op sid IdleTimeout \<or> ev = Op sid ProcessExit
         \<or> (\<exists>now s. ev = ReaperTick now \<and> sessions reg sid = Some s \<and> attached s = []
               \<and> lastActivityAt s + threshold < now)"
proof (cases ev)
  case (Op sid' op)
  with assms leaves_running_Op [of reg sid threshold sid' op] show ?thesis by blast
next
  case (ReaperTick now)
  with assms leaves_running_Reaper [of reg sid threshold now] show ?thesis by blast
next
  case (Attach sid' cid now)
  have "state_of (registry_step threshold reg ev) sid = state_of reg sid"
    unfolding Attach by (rule stays_running_Attach)
  with assms show ?thesis by simp
next
  case (Input sid' now)
  have "state_of (registry_step threshold reg ev) sid = state_of reg sid"
    unfolding Input by (rule stays_running_Input)
  with assms show ?thesis by simp
next
  case (PumpEnded sid' cid)
  then have "transport_event ev" by simp
  then have "state_of (registry_step threshold reg ev) sid = state_of reg sid"
    by (rule transport_step_state)
  with assms show ?thesis by simp
next
  case (ConnectionClosed cid)
  then have "transport_event ev" by simp
  then have "state_of (registry_step threshold reg ev) sid = state_of reg sid"
    by (rule transport_step_state)
  with assms show ?thesis by simp
qed

text \<open>
  Claim C7. For every registry, session and connection, the end of a pump and the close
  of a connection leave the state of every session as it was, and so does any run of
  such events. A session that is running stops being so in one step only by an explicit
  terminate, an idle timeout or a process exit on that session, or by a tick of the
  reaper that finds it with no attached connection and idle beyond the threshold.
\<close>

theorem transport_never_ends_session:
  "(list_all transport_event evs \<longrightarrow>
      state_of (registry_run threshold reg evs) sid = state_of reg sid)
   \<and> state_of (registry_step threshold reg (PumpEnded sid' cid)) sid = state_of reg sid
   \<and> state_of (registry_step threshold reg (ConnectionClosed cid)) sid = state_of reg sid
   \<and> (state_of reg sid = Some Running
        \<and> state_of (registry_step threshold reg ev) sid \<noteq> Some Running
      \<longrightarrow> ev = Op sid ExplicitTerminate \<or> ev = Op sid IdleTimeout \<or> ev = Op sid ProcessExit
          \<or> (\<exists>now s. ev = ReaperTick now \<and> sessions reg sid = Some s \<and> attached s = []
                \<and> lastActivityAt s + threshold < now))"
proof (intro conjI impI)
  assume "list_all transport_event evs"
  then show "state_of (registry_run threshold reg evs) sid = state_of reg sid"
    by (rule transport_run_state)
next
  show "state_of (registry_step threshold reg (PumpEnded sid' cid)) sid = state_of reg sid"
    by (rule transport_step_state) simp
next
  show "state_of (registry_step threshold reg (ConnectionClosed cid)) sid = state_of reg sid"
    by (rule transport_step_state) simp
next
  assume "state_of reg sid = Some Running
        \<and> state_of (registry_step threshold reg ev) sid \<noteq> Some Running"
  then show "ev = Op sid ExplicitTerminate \<or> ev = Op sid IdleTimeout \<or> ev = Op sid ProcessExit
          \<or> (\<exists>now s. ev = ReaperTick now \<and> sessions reg sid = Some s \<and> attached s = []
                \<and> lastActivityAt s + threshold < now)"
    using leaves_running [of reg sid threshold ev] by blast
qed

theorem transport_never_ends_session_witness:
  "state_of
     (registry_run 300
        \<lparr>sessions = [''s1'' \<mapsto> (new_session ''s1'' Shell ''/tmp/p1'' 0)
                                  \<lparr>state := Running, attached := [7]\<rparr>],
         connected = [7]\<rparr>
        [PumpEnded ''s1'' 7, ConnectionClosed 7]) ''s1'' = Some Running
   \<and> state_of
     (registry_step 300
        \<lparr>sessions = [''s1'' \<mapsto> (new_session ''s1'' Shell ''/tmp/p1'' 0)
                                  \<lparr>state := Running, attached := []\<rparr>],
         connected = []\<rparr>
        (ReaperTick 1000)) ''s1'' = Some Draining
   \<and> (\<exists>s. [''s1'' \<mapsto> (new_session ''s1'' Shell ''/tmp/p1'' 0)
                          \<lparr>state := Running, attached := []\<rparr>] ''s1'' = Some s
          \<and> attached s = [] \<and> lastActivityAt s + 300 < 1000)"
proof -
  let ?reg = "\<lparr>sessions = [''s1'' \<mapsto> (new_session ''s1'' Shell ''/tmp/p1'' 0)
                                  \<lparr>state := Running, attached := [7]\<rparr>],
         connected = [7]\<rparr>"
  let ?idle = "\<lparr>sessions = [''s1'' \<mapsto> (new_session ''s1'' Shell ''/tmp/p1'' 0)
                                  \<lparr>state := Running, attached := []\<rparr>],
         connected = []\<rparr>"
  let ?evs = "[PumpEnded ''s1'' 7, ConnectionClosed 7]"
  have tr: "list_all transport_event ?evs" by simp
  have before: "state_of ?reg ''s1'' = Some Running"
    by (simp add: state_of_def new_session_def)
  from transport_never_ends_session [of ?evs 300 ?reg "''s1''"] tr before
  have a: "state_of (registry_run 300 ?reg ?evs) ''s1'' = Some Running"
    by simp
  have running: "state_of ?idle ''s1'' = Some Running"
    by (simp add: state_of_def new_session_def)
  have b: "state_of (registry_step 300 ?idle (ReaperTick 1000)) ''s1'' = Some Draining"
    by (simp add: state_of_def new_session_def reap_def apply_op_def)
  then have left: "state_of (registry_step 300 ?idle (ReaperTick 1000)) ''s1'' \<noteq> Some Running"
    by simp
  from transport_never_ends_session [of "[]" 300 ?idle "''s1''" "''s1''" 7 "ReaperTick 1000"]
    running left
  have c: "\<exists>s. sessions ?idle ''s1'' = Some s \<and> attached s = []
               \<and> lastActivityAt s + 300 < 1000"
    by simp
  from a b c show ?thesis by simp
qed

section \<open>Properties of the reconnection protocol\<close>

lemma reconnectRun_Cons:
  "reconnectRun cfg c (code # codes) =
     (if code \<noteq> normalClosure \<and> reconnectAttempts c < maxAttempts cfg
      then reconnectDelay cfg (reconnectAttempts c)
           # reconnectRun cfg (c\<lparr>connectionState := Disconnected,
                                  reconnectAttempts := Suc (reconnectAttempts c)\<rparr>) codes
      else [])"
  by (simp add: onClose_def)

lemma reconnectRun_length:
  "length (reconnectRun cfg c codes) \<le> maxAttempts cfg - reconnectAttempts c"
proof (induction codes arbitrary: c)
  case Nil
  then show ?case by simp
next
  case (Cons code codes)
  show ?case
  proof (cases "code \<noteq> normalClosure \<and> reconnectAttempts c < maxAttempts cfg")
    case True
    let ?c' = "c\<lparr>connectionState := Disconnected,
                 reconnectAttempts := Suc (reconnectAttempts c)\<rparr>"
    have "length (reconnectRun cfg ?c' codes) \<le> maxAttempts cfg - reconnectAttempts ?c'"
      by (rule Cons.IH)
    with True show ?thesis
      by (auto simp add: reconnectRun_Cons simp del: reconnectRun.simps)
  next
    case False
    then show ?thesis by (auto simp add: reconnectRun_Cons simp del: reconnectRun.simps)
  qed
qed

lemma reconnectRun_nth:
  "n < length (reconnectRun cfg c codes) \<Longrightarrow>
     reconnectRun cfg c codes ! n = reconnectDelay cfg (reconnectAttempts c + n)"
proof (induction codes arbitrary: c n)
  case Nil
  then show ?case by simp
next
  case (Cons code codes)
  show ?case
  proof (cases "code \<noteq> normalClosure \<and> reconnectAttempts c < maxAttempts cfg")
    case True
    let ?c' = "c\<lparr>connectionState := Disconnected,
                 reconnectAttempts := Suc (reconnectAttempts c)\<rparr>"
    show ?thesis
    proof (cases n)
      case 0
      with True show ?thesis by (simp add: reconnectRun_Cons del: reconnectRun.simps)
    next
      case (Suc m)
      with Cons.prems True have "m < length (reconnectRun cfg ?c' codes)"
        by (simp add: reconnectRun_Cons del: reconnectRun.simps)
      then have "reconnectRun cfg ?c' codes ! m = reconnectDelay cfg (reconnectAttempts ?c' + m)"
        by (rule Cons.IH)
      with True Suc show ?thesis by (simp add: reconnectRun_Cons del: reconnectRun.simps)
    qed
  next
    case False
    with Cons.prems show ?thesis
      by (auto simp add: reconnectRun_Cons simp del: reconnectRun.simps)
  qed
qed

lemma reconnectRun_full:
  "list_all (\<lambda>code. code \<noteq> normalClosure) codes \<Longrightarrow>
     length (reconnectRun cfg c codes) =
       min (length codes) (maxAttempts cfg - reconnectAttempts c)"
proof (induction codes arbitrary: c)
  case Nil
  then show ?case by simp
next
  case (Cons code codes)
  let ?c' = "c\<lparr>connectionState := Disconnected,
               reconnectAttempts := Suc (reconnectAttempts c)\<rparr>"
  from Cons.prems have code: "code \<noteq> normalClosure"
    and rest: "list_all (\<lambda>code. code \<noteq> normalClosure) codes" by simp_all
  from rest have "length (reconnectRun cfg ?c' codes) =
       min (length codes) (maxAttempts cfg - reconnectAttempts ?c')"
    by (rule Cons.IH)
  with code show ?case
    by (auto simp add: reconnectRun_Cons min_def simp del: reconnectRun.simps)
qed

lemma reconnectDelay_increasing:
  assumes "0 < baseDelay cfg"
  shows "reconnectDelay cfg n < reconnectDelay cfg (Suc n)"
proof -
  have "(0::rat) < (3 / 2) ^ n" by simp
  then have "(3 / 2) ^ n < (3 / 2) ^ n * (3 / 2 :: rat)" by simp
  then have "(3 / 2 :: rat) ^ n < (3 / 2) ^ Suc n" by (simp add: mult.commute)
  from this assms show ?thesis
    unfolding reconnectDelay_def by (rule mult_strict_left_mono)
qed

text \<open>
  Claim C6. For every run of the reconnection protocol that starts with no attempt made,
  the delay scheduled before attempt \<open>n\<close> is the base delay times \<open>1.5 ^ n\<close>; with a
  positive base delay each delay is strictly smaller than the next one; at most the
  configured maximum number of reconnects is scheduled, exactly that many when the
  closes stay unexpected for long enough; and once the attempts made have reached the
  maximum, or the close is a normal closure, no reconnect is scheduled.
\<close>

theorem reconnect_backoff:
  "(reconnectAttempts c = 0 \<longrightarrow>
      length (reconnectRun cfg c codes) \<le> maxAttempts cfg
      \<and> (\<forall>n. n < length (reconnectRun cfg c codes) \<longrightarrow>
            reconnectRun cfg c codes ! n = baseDelay cfg * (3 / 2) ^ n)
      \<and> (0 < baseDelay cfg \<longrightarrow>
           (\<forall>n. Suc n < length (reconnectRun cfg c codes) \<longrightarrow>
              reconnectRun cfg c codes ! n < reconnectRun cfg c codes ! Suc n))
      \<and> (list_all (\<lambda>code. code \<noteq> normalClosure) codes \<longrightarrow>
           length (reconnectRun cfg c codes) = min (length codes) (maxAttempts cfg)))
   \<and> (maxAttempts cfg \<le> reconnectAttempts c \<longrightarrow> snd (onClose cfg c code) = None)
   \<and> snd (onClose cfg c normalClosure) = None"
proof (intro conjI impI allI)
  assume z: "reconnectAttempts c = 0"
  from reconnectRun_length [of cfg c codes] z
  show "length (reconnectRun cfg c codes) \<le> maxAttempts cfg" by simp
  {
    fix n assume "n < length (reconnectRun cfg c codes)"
    then have "reconnectRun cfg c codes ! n = reconnectDelay cfg (reconnectAttempts c + n)"
      by (rule reconnectRun_nth)
    with z show "reconnectRun cfg c codes ! n = baseDelay cfg * (3 / 2) ^ n"
      by (simp add: reconnectDelay_def)
  }
  {
    fix n assume pos: "0 < baseDelay cfg" and n: "Suc n < length (reconnectRun cfg c codes)"
    from n have n': "n < length (reconnectRun cfg c codes)" by simp
    from n z have a: "reconnectRun cfg c codes ! Suc n = reconnectDelay cfg (Suc n)"
      by (simp add: reconnectRun_nth)
    from n' z have b: "reconnectRun cfg c codes ! n = reconnectDelay cfg n"
      by (simp add: reconnectRun_nth)
    from a b reconnectDelay_increasing [OF pos, of n]
    show "reconnectRun cfg c codes ! n < reconnectRun cfg c codes ! Suc n" by simp
  }
  {
    assume "list_all (\<lambda>code. code \<noteq> normalClosure) codes"
    then have "length (reconnectRun cfg c codes) =
       min (length codes) (maxAttempts cfg - reconnectAttempts c)"
      by (rule reconnectRun_full)
    with z show "length (reconnectRun cfg c codes) = min (length codes) (maxAttempts cfg)"
      by simp
  }
next
  assume "maxAttempts cfg \<le> reconnectAttempts c"
  then show "snd (onClose cfg c code) = None" by (simp add: onClose_def)
next
  show "snd (onClose cfg c normalClosure) = None" by (simp add: onClose_def)
qed

theorem reconnect_backoff_witness:
  "reconnectRun \<lparr>baseDelay = 1000, maxAttempts = 3\<rparr>
      \<lparr>connectionState = Connected, reconnectAttempts = 0\<rparr> [1006, 1006, 1006, 1006, 1006]
     = [1000, 1500, 2250]
   \<and> length (reconnectRun \<lparr>baseDelay = 1000, maxAttempts = 3\<rparr>
      \<lparr>connectionState = Connected, reconnectAttempts = 0\<rparr> [1006, 1006, 1006, 1006, 1006])
       = min 5 3
   \<and> reconnectRun \<lparr>baseDelay = 1000, maxAttempts = 3\<rparr>
        \<lparr>connectionState = Connected, reconnectAttempts = 0\<rparr>
        [1006, 1006, 1006, 1006, 1006] ! 1
     < reconnectRun \<lparr>baseDelay = 1000, maxAttempts = 3\<rparr>
        \<lparr>connectionState = Connected, reconnectAttempts = 0\<rparr>
        [1006, 1006, 1006, 1006, 1006] ! Suc 1
   \<and> snd (onClose \<lparr>baseDelay = 1000, maxAttempts = 3\<rparr>
             \<lparr>connectionState = Connected, reconnectAttempts = 3\<rparr> 1006) = None"
proof -
  let ?cfg = "\<lparr>baseDelay = 1000, maxAttempts = 3\<rparr>"
  let ?c = "\<lparr>connectionState = Connected, reconnectAttempts = 0\<rparr>"
  let ?c3 = "\<lparr>connectionState = Connected, reconnectAttempts = 3\<rparr>"
  let ?codes = "[1006, 1006, 1006, 1006, 1006] :: nat list"
  have z: "reconnectAttempts ?c = 0" by simp
  have pos: "0 < baseDelay ?cfg" by simp
  have unexpected: "list_all (\<lambda>code. code \<noteq> normalClosure) ?codes"
    by (simp add: normalClosure_def)
  have spent: "maxAttempts ?cfg \<le> reconnectAttempts ?c3" by simp
  have run: "reconnectRun ?cfg ?c ?codes = [1000, 1500, 2250]"
    by (simp add: onClose_def normalClosure_def reconnectDelay_def power2_eq_square)
  then have third: "Suc 1 < length (reconnectRun ?cfg ?c ?codes)" by simp
  note main = reconnect_backoff [of ?c ?cfg ?codes 1006]
  from main z unexpected
  have len: "length (reconnectRun ?cfg ?c ?codes) = min (length ?codes) (maxAttempts ?cfg)"
    by blast
  from main z pos third
  have grow: "reconnectRun ?cfg ?c ?codes ! 1 < reconnectRun ?cfg ?c ?codes ! Suc 1"
    by blast
  from reconnect_backoff [of ?c3 ?cfg ?codes 1006] spent
  have stop: "snd (onClose ?cfg ?c3 1006) = None" by blast
  from run len grow stop show ?thesis by simp
qed

end
